theory Spec2Isabelle
  imports Main "HOL-Library.Word" "HOL-Library.Signed_Division"
begin

section \<open>Data model\<close>

text \<open>
  Keys and values are Go byte slices. A nil slice and an empty slice are both the empty
  list: \<open>bytes.Compare\<close> and \<open>len\<close> do not tell them apart, and a cleared key slot
  (\<open>keys[i] = nil\<close>) is the empty list.
\<close>

type_synonym bytes = "8 word list"

text \<open>
  \<open>type pointer struct { data interface{} }\<close>: the interface value holds a \<open>*node\<close> or a
  \<open>[]byte\<close>. Pointer objects live in a store of their own (field \<open>cells\<close> below), and a
  node's slot is nil or the address of a pointer object, so that two slots holding the
  same \<open>*pointer\<close> see each other's \<open>overrideValue\<close>.
\<close>

datatype pointer = PNode nat | PValue bytes

record node =
  leaf :: bool
  parent :: "nat option"
  keys :: "bytes list"
  keyNums :: int
  pointers :: "nat option list"

text \<open>
  The \<open>BPlusTree\<close> struct together with the heap it points into: \<open>nodes\<close> holds every
  allocated node (a \<open>*node\<close> is an index into it, nil is \<open>None\<close>), \<open>cells\<close> every
  allocated pointer object. Nothing is ever freed (garbage collection is not observable).
\<close>

record BPlusTree =
  nodes :: "node list"
  cells :: "pointer list"
  root :: "nat option"
  mostLeftNode :: "nat option"
  order :: int
  size_bpt :: int
  minKeyNum :: int

record Iterator =
  it_next :: "nat option"
  it_i :: int

text \<open>
  Every way the Go runtime or the code itself can stop: a panic is \<open>Inl\<close> of one of
  these. \<open>ConfigError\<close> is the error value returned by \<open>SetOrder\<close>, \<open>OutOfFuel\<close> marks a
  loop of unbounded length cut off by the model's step bound, and \<open>InvalidRef\<close> an address
  outside the store (no Go state has one).
\<close>

datatype error =
    NilDereference
  | IndexOutOfRange
  | SliceBounds
  | TypeAssertion
  | MakeSliceLen
  | Panic string
  | ConfigError string
  | OutOfFuel
  | InvalidRef

section \<open>Go primitives\<close>

text \<open>\<open>bytes.Compare\<close>: lexicographic order on unsigned bytes, result -1, 0 or 1.\<close>

fun bytes_Compare :: "bytes \<Rightarrow> bytes \<Rightarrow> int" where
  "bytes_Compare [] [] = 0"
| "bytes_Compare [] (y # ys) = - 1"
| "bytes_Compare (x # xs) [] = 1"
| "bytes_Compare (x # xs) (y # ys) =
     (if x < y then - 1 else if y < x then 1 else bytes_Compare xs ys)"

text \<open>Indexing \<open>xs[i]\<close> and the assignment \<open>xs[i] = v\<close>, with the runtime's bounds check.\<close>

definition idx :: "'a list \<Rightarrow> int \<Rightarrow> error + 'a" where
  "idx xs i = (if 0 \<le> i \<and> i < int (length xs) then Inr (xs ! nat i) else Inl IndexOutOfRange)"

definition upd :: "'a list \<Rightarrow> int \<Rightarrow> 'a \<Rightarrow> error + 'a list" where
  "upd xs i v =
     (if 0 \<le> i \<and> i < int (length xs) then Inr (xs[nat i := v]) else Inl IndexOutOfRange)"

text \<open>The slice expression \<open>xs[lo:hi]\<close> (every slice here has capacity equal to its length).\<close>

definition slice :: "'a list \<Rightarrow> int \<Rightarrow> int \<Rightarrow> error + 'a list" where
  "slice xs lo hi =
     (if 0 \<le> lo \<and> lo \<le> hi \<and> hi \<le> int (length xs)
      then Inr (take (nat (hi - lo)) (drop (nat lo) xs)) else Inl SliceBounds)"

text \<open>\<open>copy(dst, src)\<close> overwrites the first \<open>min(len(dst), len(src))\<close> elements of dst.\<close>

definition go_copy :: "'a list \<Rightarrow> 'a list \<Rightarrow> 'a list" where
  "go_copy dst src =
     take (min (length dst) (length src)) src @ drop (min (length dst) (length src)) dst"

text \<open>\<open>make([]T, n)\<close>: n zero values, a panic when n is negative.\<close>

definition make :: "'a \<Rightarrow> int \<Rightarrow> error + 'a list" where
  "make z n = (if n < 0 then Inl MakeSliceLen else Inr (replicate (nat n) z))"

text \<open>
  \<open>ceil\<close> of util.go. Go's \<open>/\<close> and \<open>%\<close> on int truncate towards zero, which is
  \<open>sdiv\<close> and \<open>smod\<close>.
\<close>

definition ceil :: "int \<Rightarrow> int \<Rightarrow> int" where
  "ceil a b = (if a smod b = 0 then a sdiv b else a sdiv b + 1)"

section \<open>A state and panic monad\<close>

text \<open>
  A method of the tree is a function from the state to a panic or to a result and the
  state after it.
\<close>

type_synonym 'a prog = "BPlusTree \<Rightarrow> error + ('a \<times> BPlusTree)"

definition ret :: "'a \<Rightarrow> 'a prog" where
  "ret a = (\<lambda>s. Inr (a, s))"

definition panic :: "error \<Rightarrow> 'a prog" where
  "panic e = (\<lambda>s. Inl e)"

definition bnd :: "'a prog \<Rightarrow> ('a \<Rightarrow> 'b prog) \<Rightarrow> 'b prog" where
  "bnd m f = (\<lambda>s. case m s of Inl e \<Rightarrow> Inl e | Inr (a, s') \<Rightarrow> f a s')"

definition lift :: "error + 'a \<Rightarrow> 'a prog" where
  "lift r = (\<lambda>s. case r of Inl e \<Rightarrow> Inl e | Inr a \<Rightarrow> Inr (a, s))"

definition gets :: "(BPlusTree \<Rightarrow> 'a) \<Rightarrow> 'a prog" where
  "gets g = (\<lambda>s. Inr (g s, s))"

definition modify :: "(BPlusTree \<Rightarrow> BPlusTree) \<Rightarrow> unit prog" where
  "modify g = (\<lambda>s. Inr ((), g s))"

subsection \<open>The store\<close>

text \<open>Reading through a \<open>*node\<close>: nil panics.\<close>

definition getNode :: "nat \<Rightarrow> node prog" where
  "getNode r = (\<lambda>s. if r < length (nodes s) then Inr (nodes s ! r, s) else Inl InvalidRef)"

definition deref :: "nat option \<Rightarrow> nat prog" where
  "deref p = (case p of None \<Rightarrow> panic NilDereference | Some r \<Rightarrow> ret r)"

definition setNode :: "nat \<Rightarrow> node \<Rightarrow> unit prog" where
  "setNode r n =
     (\<lambda>s. if r < length (nodes s) then Inr ((), s\<lparr>nodes := (nodes s)[r := n]\<rparr>)
          else Inl InvalidRef)"

text \<open>\<open>&node{...}\<close> and \<open>&pointer{...}\<close> allocate at the end of the store.\<close>

definition allocNode :: "node \<Rightarrow> nat prog" where
  "allocNode n = (\<lambda>s. Inr (length (nodes s), s\<lparr>nodes := nodes s @ [n]\<rparr>))"

definition allocPointer :: "pointer \<Rightarrow> nat option prog" where
  "allocPointer d = (\<lambda>s. Inr (Some (length (cells s)), s\<lparr>cells := cells s @ [d]\<rparr>))"

definition getCell :: "nat option \<Rightarrow> pointer prog" where
  "getCell p =
     (case p of
        None \<Rightarrow> panic NilDereference
      | Some c \<Rightarrow> (\<lambda>s. if c < length (cells s) then Inr (cells s ! c, s) else Inl InvalidRef))"

definition setParent :: "nat \<Rightarrow> nat option \<Rightarrow> unit prog" where
  "setParent r p = bnd (getNode r) (\<lambda>n. setNode r (n\<lparr>parent := p\<rparr>))"

section \<open>pointer\<close>

text \<open>\<open>p.data.(*node)\<close> and \<open>p.data.([]byte)\<close>: the type assertion panics on the other kind.\<close>

definition convertToNode :: "nat option \<Rightarrow> nat prog" where
  "convertToNode p =
     bnd (getCell p) (\<lambda>d. case d of PNode r \<Rightarrow> ret r | PValue v \<Rightarrow> panic TypeAssertion)"

definition convertToValue :: "nat option \<Rightarrow> bytes prog" where
  "convertToValue p =
     bnd (getCell p) (\<lambda>d. case d of PValue v \<Rightarrow> ret v | PNode r \<Rightarrow> panic TypeAssertion)"

definition setCell :: "nat \<Rightarrow> pointer \<Rightarrow> unit prog" where
  "setCell c d =
     (\<lambda>s. if c < length (cells s) then Inr ((), s\<lparr>cells := (cells s)[c := d]\<rparr>)
          else Inl InvalidRef)"

definition overrideValue :: "nat option \<Rightarrow> bytes \<Rightarrow> bytes prog" where
  "overrideValue p v =
     bnd (convertToValue p) (\<lambda>oldValue.
     bnd (deref p) (\<lambda>c.
     bnd (setCell c (PValue v)) (\<lambda>_.
     ret oldValue)))"

section \<open>node\<close>

text \<open>
  \<open>append\<close>: the key goes to slot \<open>keyNums\<close>; the pointer too, or one slot further in
  an internal node whose slot \<open>keyNums\<close> is taken.
\<close>

definition append_node :: "nat \<Rightarrow> bytes \<Rightarrow> nat option \<Rightarrow> unit prog" where
  "append_node n key p =
     bnd (getNode n) (\<lambda>nd.
     bnd (if \<not> leaf nd
          then bnd (lift (idx (pointers nd) (keyNums nd))) (\<lambda>q.
               ret (if q \<noteq> None then keyNums nd + 1 else keyNums nd))
          else ret (keyNums nd)) (\<lambda>pointerPosition.
     bnd (lift (upd (keys nd) (keyNums nd) key)) (\<lambda>ks.
     bnd (lift (upd (pointers nd) pointerPosition p)) (\<lambda>ps.
     bnd (setNode n (nd\<lparr>keys := ks, pointers := ps, keyNums := keyNums nd + 1\<rparr>)) (\<lambda>_.
     if \<not> leaf nd then bnd (convertToNode p) (\<lambda>c. setParent c (Some n)) else ret ())))))"

text \<open>The loop \<open>for i := hi; i > lo; i-- { xs[i] = xs[i-1] }\<close>.\<close>

function shiftRight :: "'a list \<Rightarrow> int \<Rightarrow> int \<Rightarrow> error + 'a list" where
  "shiftRight xs i lo =
     (if i > lo
      then (case idx xs (i - 1) of
              Inl e \<Rightarrow> Inl e
            | Inr x \<Rightarrow> (case upd xs i x of
                         Inl e \<Rightarrow> Inl e
                       | Inr xs' \<Rightarrow> shiftRight xs' (i - 1) lo))
      else Inr xs)"
  by pat_completeness auto

termination
  by (relation "measure (\<lambda>(xs, i, lo). nat (i - lo))") auto

text \<open>The loop \<open>for i := lo; i < hi; i++ { xs[i] = xs[i+1] }\<close>.\<close>

function shiftLeft :: "'a list \<Rightarrow> int \<Rightarrow> int \<Rightarrow> error + 'a list" where
  "shiftLeft xs i hi =
     (if i < hi
      then (case idx xs (i + 1) of
              Inl e \<Rightarrow> Inl e
            | Inr x \<Rightarrow> (case upd xs i x of
                         Inl e \<Rightarrow> Inl e
                       | Inr xs' \<Rightarrow> shiftLeft xs' (i + 1) hi))
      else Inr xs)"
  by pat_completeness auto

termination
  by (relation "measure (\<lambda>(xs, i, hi). nat (hi - i))") auto

declare shiftRight.simps [simp del] shiftLeft.simps [simp del]

text \<open>
  \<open>insertAt\<close>: the two shift loops run on the node's own slices; in an internal node the
  new child's parent is set first (line 104), then the node is written.
\<close>

definition insertAt :: "nat \<Rightarrow> int \<Rightarrow> int \<Rightarrow> bytes \<Rightarrow> nat option \<Rightarrow> unit prog" where
  "insertAt n keyPosition pointerPosition key p =
     bnd (getNode n) (\<lambda>nd0.
     bnd (lift (shiftRight (keys nd0) (keyNums nd0) keyPosition)) (\<lambda>ks.
     bnd (setNode n (nd0\<lparr>keys := ks\<rparr>)) (\<lambda>_.
     bnd (if \<not> leaf nd0
          then bnd (convertToNode p) (\<lambda>c. setParent c (Some n))
          else ret ()) (\<lambda>_.
     bnd (getNode n) (\<lambda>nd.
     bnd (lift (shiftRight (pointers nd)
                 (if \<not> leaf nd then keyNums nd + 1 else keyNums nd) pointerPosition)) (\<lambda>ps.
     bnd (lift (upd (keys nd) keyPosition key)) (\<lambda>ks'.
     bnd (lift (upd ps pointerPosition p)) (\<lambda>ps'.
     setNode n (nd\<lparr>keys := ks', pointers := ps', keyNums := keyNums nd + 1\<rparr>)))))))))"

text \<open>
  \<open>deleteAt\<close>. Both shift loops stop at \<open>keyNums - 1\<close> (lines 117 and 126); the slot
  cleared at the end is \<open>pointerNums - 1\<close>.
\<close>

definition deleteAt :: "nat \<Rightarrow> int \<Rightarrow> int \<Rightarrow> unit prog" where
  "deleteAt n keyPosition pointerPosition =
     bnd (getNode n) (\<lambda>nd.
     bnd (lift (shiftLeft (keys nd) keyPosition (keyNums nd - 1))) (\<lambda>ks.
     bnd (lift (upd ks (keyNums nd - 1) [])) (\<lambda>ks'.
     bnd (lift (shiftLeft (pointers nd) pointerPosition (keyNums nd - 1))) (\<lambda>ps.
     bnd (lift (upd ps ((if \<not> leaf nd then keyNums nd + 1 else keyNums nd) - 1) None)) (\<lambda>ps'.
     setNode n (nd\<lparr>keys := ks', pointers := ps', keyNums := keyNums nd - 1\<rparr>))))))"

text \<open>\<open>keyPosition\<close>: the first slot below \<open>keyNums\<close> holding the key, or -1.\<close>

function keyPosition_loop :: "node \<Rightarrow> bytes \<Rightarrow> int \<Rightarrow> error + int" where
  "keyPosition_loop nd key keyPosition =
     (if keyPosition < keyNums nd
      then (case idx (keys nd) keyPosition of
              Inl e \<Rightarrow> Inl e
            | Inr k \<Rightarrow> if bytes_Compare key k = 0 then Inr keyPosition
                       else keyPosition_loop nd key (keyPosition + 1))
      else Inr (- 1))"
  by pat_completeness auto

termination
  by (relation "measure (\<lambda>(nd, key, i). nat (keyNums nd - i))") auto

declare keyPosition_loop.simps [simp del]

definition keyPosition :: "nat \<Rightarrow> bytes \<Rightarrow> int prog" where
  "keyPosition n key = bnd (getNode n) (\<lambda>nd. lift (keyPosition_loop nd key 0))"

text \<open>
  \<open>getPointerPositionOfNode\<close>: ranges over the pointer slots, stops at the first nil
  one, and compares node addresses.
\<close>

fun getPointerPositionOfNode_loop :: "nat option list \<Rightarrow> nat \<Rightarrow> int \<Rightarrow> int prog" where
  "getPointerPositionOfNode_loop [] target position = ret (- 1)"
| "getPointerPositionOfNode_loop (p # ps) target position =
     (if p = None then ret (- 1)
      else bnd (convertToNode p) (\<lambda>c.
           if c = target then ret position
           else getPointerPositionOfNode_loop ps target (position + 1)))"

definition getPointerPositionOfNode :: "nat \<Rightarrow> nat \<Rightarrow> int prog" where
  "getPointerPositionOfNode n target =
     bnd (getNode n) (\<lambda>nd. getPointerPositionOfNode_loop (pointers nd) target 0)"

text \<open>
  \<open>setLastPointer\<close> returns an error on an internal node (\<open>Inl\<close> of the inner sum) and
  writes nothing then; \<open>pointerToNextLeafNode\<close> reads the last slot of any node.
\<close>

definition setLastPointer :: "nat \<Rightarrow> nat option \<Rightarrow> (string + unit) prog" where
  "setLastPointer n p =
     bnd (getNode n) (\<lambda>nd.
     if \<not> leaf nd then ret (Inl ''only works for leaf node'')
     else bnd (lift (upd (pointers nd) (int (length (pointers nd)) - 1) p)) (\<lambda>ps.
          bnd (setNode n (nd\<lparr>pointers := ps\<rparr>)) (\<lambda>_. ret (Inr ()))))"

definition pointerToNextLeafNode :: "nat \<Rightarrow> nat option prog" where
  "pointerToNextLeafNode n =
     bnd (getNode n) (\<lambda>nd. lift (idx (pointers nd) (int (length (pointers nd)) - 1)))"

text \<open>
  \<open>copyFromRight\<close>. The loop reads \<open>from.keyNums\<close> afresh at every turn, and \<open>append\<close>
  changes it when \<open>from\<close> is the node itself, so the loop is bounded by a step count.
\<close>

fun copyFromRight_loop :: "nat \<Rightarrow> nat \<Rightarrow> nat \<Rightarrow> int \<Rightarrow> unit prog" where
  "copyFromRight_loop 0 n from i = panic OutOfFuel"
| "copyFromRight_loop (Suc fuel) n from i =
     bnd (getNode from) (\<lambda>fr.
     if i < keyNums fr
     then bnd (lift (idx (keys fr) i)) (\<lambda>k.
          bnd (lift (idx (pointers fr) i)) (\<lambda>p.
          bnd (append_node n k p) (\<lambda>_.
          copyFromRight_loop fuel n from (i + 1))))
     else ret ())"

definition copyFromRight :: "nat \<Rightarrow> nat \<Rightarrow> nat \<Rightarrow> unit prog" where
  "copyFromRight fuel n from =
     bnd (copyFromRight_loop fuel n from 0) (\<lambda>_.
     bnd (getNode n) (\<lambda>nd.
     if leaf nd
     then bnd (pointerToNextLeafNode from) (\<lambda>p.
          bnd (setLastPointer n p) (\<lambda>_. ret ()))
     else bnd (getNode from) (\<lambda>fr.
          bnd (lift (idx (pointers fr) (keyNums fr))) (\<lambda>p.
          bnd (lift (upd (pointers nd) (keyNums nd) p)) (\<lambda>ps.
          bnd (setNode n (nd\<lparr>pointers := ps\<rparr>)) (\<lambda>_.
          bnd (getNode n) (\<lambda>nd'.
          bnd (lift (idx (pointers nd') (keyNums nd'))) (\<lambda>q.
          bnd (convertToNode q) (\<lambda>c. setParent c (Some n))))))))))"

section \<open>BPlusTree: construction and lookup\<close>

text \<open>
  \<open>NewBPlusTree(options...)\<close>. The only option is \<open>SetOrder\<close>, so the options are the
  list of its arguments.
\<close>

definition defaultOrder :: int where
  "defaultOrder = 4"

definition SetOrder :: "int \<Rightarrow> BPlusTree \<Rightarrow> error + BPlusTree" where
  "SetOrder ord bpt = (if ord < 3 then Inl (ConfigError ''order can'bpt be less than 3'')
                       else Inr (bpt\<lparr>order := ord\<rparr>))"

fun applyOptions :: "int list \<Rightarrow> BPlusTree \<Rightarrow> error + BPlusTree" where
  "applyOptions [] bpt = Inr bpt"
| "applyOptions (opt # options) bpt =
     (case SetOrder opt bpt of Inl e \<Rightarrow> Inl e | Inr bpt' \<Rightarrow> applyOptions options bpt')"

definition NewBPlusTree :: "int list \<Rightarrow> error + BPlusTree" where
  "NewBPlusTree options =
     (case applyOptions options
             \<lparr>nodes = [], cells = [], root = None, mostLeftNode = None,
              order = defaultOrder, size_bpt = 0, minKeyNum = 0\<rparr> of
        Inl e \<Rightarrow> Inl e
      | Inr bpt \<Rightarrow> Inr (bpt\<lparr>minKeyNum := ceil (order bpt) 2 - 1\<rparr>))"

text \<open>
  \<open>init\<close> (lines 55-69): \<open>copy(keys[0], key)\<close> copies into the slice \<open>keys[0]\<close>, which
  \<open>make\<close> left nil, and both slices are made with \<open>order - 1\<close> slots.
\<close>

definition init :: "bytes \<Rightarrow> bytes \<Rightarrow> unit prog" where
  "init key v =
     bnd (gets order) (\<lambda>ord.
     bnd (lift (make [] (ord - 1))) (\<lambda>keys0.
     bnd (lift (idx keys0 0)) (\<lambda>k0.
     bnd (lift (upd keys0 0 (go_copy k0 key))) (\<lambda>keys1.
     bnd (lift (make None (ord - 1))) (\<lambda>pointers0.
     bnd (allocPointer (PValue v)) (\<lambda>p.
     bnd (lift (upd pointers0 0 p)) (\<lambda>pointers1.
     bnd (allocNode \<lparr>leaf = True, parent = None, keys = keys1, keyNums = 1,
                     pointers = pointers1\<rparr>) (\<lambda>r.
     bnd (modify (\<lambda>s. s\<lparr>root := Some r\<rparr>)) (\<lambda>_.
     bnd (modify (\<lambda>s. s\<lparr>mostLeftNode := root s\<rparr>)) (\<lambda>_.
     modify (\<lambda>s. s\<lparr>size_bpt := size_bpt s + 1\<rparr>)))))))))))"

text \<open>
  The scan \<open>for position < keyNums { if Compare(key, keys[position]) < 0 { break };
  position++ }\<close> of \<open>findLeafByKey\<close> (lines 92-97), written again in \<open>putIntoParent\<close>
  (184-192) and \<open>putIntoParentAndSplit\<close> (238-246).
\<close>

function scanPosition :: "node \<Rightarrow> bytes \<Rightarrow> int \<Rightarrow> error + int" where
  "scanPosition nd key position =
     (if position < keyNums nd
      then (case idx (keys nd) position of
              Inl e \<Rightarrow> Inl e
            | Inr k \<Rightarrow> if bytes_Compare key k < 0 then Inr position
                       else scanPosition nd key (position + 1))
      else Inr position)"
  by pat_completeness auto

termination
  by (relation "measure (\<lambda>(nd, key, i). nat (keyNums nd - i))") auto

declare scanPosition.simps [simp del]

text \<open>
  \<open>findLeafByKey\<close>: the descent \<open>for !current.leaf\<close> has no bound of its own (a cyclic
  store would keep it running), so it takes a step bound.
\<close>

fun findLeafByKey_loop :: "nat \<Rightarrow> bytes \<Rightarrow> nat \<Rightarrow> nat prog" where
  "findLeafByKey_loop 0 key current = panic OutOfFuel"
| "findLeafByKey_loop (Suc fuel) key current =
     bnd (getNode current) (\<lambda>cur.
     if \<not> leaf cur
     then bnd (lift (scanPosition cur key 0)) (\<lambda>position.
          bnd (lift (idx (pointers cur) position)) (\<lambda>p.
          bnd (convertToNode p) (\<lambda>c.
          findLeafByKey_loop fuel key c)))
     else ret current)"

definition findLeafByKey :: "nat \<Rightarrow> bytes \<Rightarrow> nat prog" where
  "findLeafByKey fuel key =
     bnd (gets root) (\<lambda>r.
     bnd (deref r) (\<lambda>current.
     findLeafByKey_loop fuel key current))"

function Get_loop :: "node \<Rightarrow> bytes \<Rightarrow> int \<Rightarrow> (bytes \<times> bool) prog" where
  "Get_loop targetLeaf key i =
     (if i < keyNums targetLeaf
      then bnd (lift (idx (keys targetLeaf) i)) (\<lambda>k.
           if bytes_Compare key k = 0
           then bnd (lift (idx (pointers targetLeaf) i)) (\<lambda>p.
                bnd (convertToValue p) (\<lambda>v.
                ret (v, True)))
           else Get_loop targetLeaf key (i + 1))
      else ret ([], False))"
  by pat_completeness auto

termination
  by (relation "measure (\<lambda>(nd, key, i). nat (keyNums nd - i))") auto

declare Get_loop.simps [simp del]

definition Get :: "nat \<Rightarrow> bytes \<Rightarrow> (bytes \<times> bool) prog" where
  "Get fuel key =
     bnd (gets root) (\<lambda>r.
     if r = None then ret ([], False)
     else bnd (findLeafByKey fuel key) (\<lambda>targetLeaf.
          bnd (getNode targetLeaf) (\<lambda>nd.
          Get_loop nd key 0)))"

definition Size :: "int prog" where
  "Size = gets size_bpt"

section \<open>BPlusTree: insertion\<close>

text \<open>
  \<open>putIntoNewRoot\<close>, \<open>putIntoParent\<close>: an internal node gets \<open>order - 1\<close> key slots and
  \<open>order\<close> pointer slots. The loop of lines 196-199 shifts keys and pointers in one body;
  the two slices do not overlap, so it is a shift of each.
\<close>

definition putIntoNewRoot :: "bytes \<Rightarrow> nat \<Rightarrow> nat \<Rightarrow> unit prog" where
  "putIntoNewRoot key l r =
     bnd (gets order) (\<lambda>ord.
     bnd (lift (make [] (ord - 1))) (\<lambda>keys0.
     bnd (lift (make None ord)) (\<lambda>pointers0.
     bnd (allocNode \<lparr>leaf = False, parent = None, keys = keys0, keyNums = 1,
                     pointers = pointers0\<rparr>) (\<lambda>newRoot.
     bnd (lift (upd keys0 0 key)) (\<lambda>keys1.
     bnd (allocPointer (PNode l)) (\<lambda>pl.
     bnd (lift (upd pointers0 0 pl)) (\<lambda>pointers1.
     bnd (allocPointer (PNode r)) (\<lambda>pr.
     bnd (lift (upd pointers1 1 pr)) (\<lambda>pointers2.
     bnd (setNode newRoot \<lparr>leaf = False, parent = None, keys = keys1, keyNums = 1,
                           pointers = pointers2\<rparr>) (\<lambda>_.
     bnd (setParent l (Some newRoot)) (\<lambda>_.
     bnd (setParent r (Some newRoot)) (\<lambda>_.
     modify (\<lambda>s. s\<lparr>root := Some newRoot\<rparr>)))))))))))))"

text \<open>
  Lines 195-206 of \<open>putIntoParent\<close>, the same statements as lines 284-293 of
  \<open>putIntoParentAndSplit\<close>: make room at \<open>insertPos\<close> and put the key and the two children.
\<close>

definition insertIntoInternal :: "nat \<Rightarrow> int \<Rightarrow> bytes \<Rightarrow> nat \<Rightarrow> nat \<Rightarrow> unit prog" where
  "insertIntoInternal n insertPos k l r =
     bnd (getNode n) (\<lambda>nd.
     bnd (lift (idx (pointers nd) (keyNums nd))) (\<lambda>lastp.
     bnd (lift (upd (pointers nd) (keyNums nd + 1) lastp)) (\<lambda>ps0.
     bnd (lift (shiftRight (keys nd) (keyNums nd) insertPos)) (\<lambda>ks.
     bnd (lift (shiftRight ps0 (keyNums nd) insertPos)) (\<lambda>ps.
     bnd (lift (upd ks insertPos k)) (\<lambda>ks'.
     bnd (allocPointer (PNode l)) (\<lambda>pl.
     bnd (lift (upd ps insertPos pl)) (\<lambda>ps1.
     bnd (allocPointer (PNode r)) (\<lambda>pr.
     bnd (lift (upd ps1 (insertPos + 1) pr)) (\<lambda>ps2.
     bnd (setNode n (nd\<lparr>keys := ks', pointers := ps2, keyNums := keyNums nd + 1\<rparr>)) (\<lambda>_.
     bnd (setParent l (Some n)) (\<lambda>_.
     setParent r (Some n)))))))))))))"

definition putIntoParent :: "nat \<Rightarrow> bytes \<Rightarrow> nat \<Rightarrow> nat \<Rightarrow> unit prog" where
  "putIntoParent par k l r =
     bnd (getNode par) (\<lambda>pn.
     bnd (lift (scanPosition pn k 0)) (\<lambda>insertPos.
     insertIntoInternal par insertPos k l r))"

text \<open>
  The clean-up loops \<open>for i := len(keys) - 1; i >= copyFrom; i-- { keys[i] = nil;
  pointers[i + d] = nil }\<close>, with \<open>d = 0\<close> in the leaf split (lines 360-363) and \<open>d = 1\<close> in
  the split of an internal node (lines 272-275).
\<close>

function cleanUp :: "node \<Rightarrow> int \<Rightarrow> int \<Rightarrow> int \<Rightarrow> error + node" where
  "cleanUp nd i copyFrom d =
     (if i \<ge> copyFrom
      then (case upd (keys nd) i [] of
              Inl e \<Rightarrow> Inl e
            | Inr ks \<Rightarrow> (case upd (pointers nd) (i + d) None of
                          Inl e \<Rightarrow> Inl e
                        | Inr ps \<Rightarrow> cleanUp (nd\<lparr>keys := ks, pointers := ps\<rparr>) (i - 1) copyFrom d))
      else Inr nd)"
  by pat_completeness auto

termination
  by (relation "measure (\<lambda>(nd, i, copyFrom, d). nat (i - copyFrom + 1))") auto

declare cleanUp.simps [simp del]

text \<open>\<open>for _, p := range ps { if p != nil { p.convertToNode().parent = n } }\<close>\<close>

fun reparent :: "nat option list \<Rightarrow> nat \<Rightarrow> unit prog" where
  "reparent [] n = ret ()"
| "reparent (p # ps) n =
     (if p \<noteq> None
      then bnd (convertToNode p) (\<lambda>c.
           bnd (setParent c (Some n)) (\<lambda>_.
           reparent ps n))
      else reparent ps n)"

definition putIntoParentAndSplit ::
  "nat \<Rightarrow> bytes \<Rightarrow> nat \<Rightarrow> nat \<Rightarrow> (bytes \<times> nat \<times> nat) prog" where
  "putIntoParentAndSplit par k l r =
     bnd (getNode par) (\<lambda>pn.
     bnd (lift (scanPosition pn k 0)) (\<lambda>insertPos.
     bnd (gets order) (\<lambda>ord.
     bnd (lift (make [] (ord - 1))) (\<lambda>rkeys0.
     bnd (lift (make None ord)) (\<lambda>rpointers0.
     bnd (allocNode \<lparr>leaf = False, parent = None, keys = rkeys0, keyNums = 0,
                     pointers = rpointers0\<rparr>) (\<lambda>right.
     let middlePos = ceil (int (length (keys pn))) 2;
         copyFrom = (if insertPos < middlePos then middlePos - 1 else middlePos)
     in
     bnd (lift (slice (keys pn) copyFrom (int (length (keys pn))))) (\<lambda>ksrc.
     bnd (lift (slice (pointers pn) copyFrom (int (length (pointers pn))))) (\<lambda>psrc.
     bnd (setNode right \<lparr>leaf = False, parent = None, keys = go_copy rkeys0 ksrc,
                         keyNums = int (length rkeys0) - copyFrom,
                         pointers = go_copy rpointers0 psrc\<rparr>) (\<lambda>_.
     bnd (getNode par) (\<lambda>ln.
     bnd (lift (cleanUp (ln\<lparr>keyNums := copyFrom\<rparr>)
                 (int (length (keys ln)) - 1) copyFrom 1)) (\<lambda>ln'.
     bnd (setNode par ln') (\<lambda>_.
     let left = par;
         insertNode = (if insertPos \<ge> middlePos then right else left);
         insertPos' = (if insertPos \<ge> middlePos then insertPos - middlePos else insertPos)
     in
     bnd (insertIntoInternal insertNode insertPos' k l r) (\<lambda>_.
     bnd (getNode right) (\<lambda>rn.
     bnd (lift (idx (keys rn) 0)) (\<lambda>middleKey.
     bnd (lift (shiftLeft (keys rn) 0 (keyNums rn - 1))) (\<lambda>rks.
     bnd (lift (shiftLeft (pointers rn) 0 (keyNums rn - 1))) (\<lambda>rps.
     bnd (lift (idx rps (keyNums rn))) (\<lambda>lastp.
     bnd (lift (upd rps (keyNums rn - 1) lastp)) (\<lambda>rps1.
     bnd (lift (upd rps1 (keyNums rn) None)) (\<lambda>rps2.
     bnd (lift (upd rks (keyNums rn - 1) [])) (\<lambda>rks1.
     bnd (setNode right (rn\<lparr>keys := rks1, pointers := rps2, keyNums := keyNums rn - 1\<rparr>)) (\<lambda>_.
     bnd (getNode left) (\<lambda>lf.
     bnd (reparent (pointers lf) left) (\<lambda>_.
     bnd (getNode right) (\<lambda>rf.
     bnd (reparent (pointers rf) right) (\<lambda>_.
     ret (middleKey, left, right)))))))))))))))))))))))))))"

text \<open>
  \<open>putIntoLeafAndSplit\<close>. \<open>setLastPointer\<close> cannot fail on \<open>right\<close>; on \<open>left\<close> its error
  is turned into a panic, as the source does.
\<close>

definition putIntoLeafAndSplit ::
  "nat \<Rightarrow> int \<Rightarrow> bytes \<Rightarrow> bytes \<Rightarrow> (nat \<times> nat) prog" where
  "putIntoLeafAndSplit n insertPos k v =
     bnd (gets order) (\<lambda>ord.
     bnd (lift (make [] (ord - 1))) (\<lambda>rkeys0.
     bnd (lift (make None ord)) (\<lambda>rpointers0.
     bnd (allocNode \<lparr>leaf = True, parent = None, keys = rkeys0, keyNums = 0,
                     pointers = rpointers0\<rparr>) (\<lambda>right.
     bnd (getNode n) (\<lambda>nd.
     let middlePos = ceil (int (length (keys nd))) 2;
         copyFrom = (if insertPos < middlePos then middlePos - 1 else middlePos)
     in
     bnd (lift (slice (keys nd) copyFrom (int (length (keys nd))))) (\<lambda>ksrc.
     bnd (lift (slice (pointers nd) copyFrom (int (length (pointers nd)) - 1))) (\<lambda>psrc.
     bnd (setNode right \<lparr>leaf = True, parent = None, keys = go_copy rkeys0 ksrc,
                         keyNums = 0, pointers = go_copy rpointers0 psrc\<rparr>) (\<lambda>_.
     bnd (pointerToNextLeafNode n) (\<lambda>nextp.
     bnd (setLastPointer right nextp) (\<lambda>err.
     case err of Inl msg \<Rightarrow> panic (Panic msg) | Inr _ \<Rightarrow>
     bnd (getNode right) (\<lambda>rn.
     bnd (setNode right (rn\<lparr>keyNums := int (length (keys rn)) - copyFrom\<rparr>)) (\<lambda>_.
     bnd (getNode n) (\<lambda>ln.
     bnd (lift (cleanUp (ln\<lparr>parent := None, keyNums := copyFrom\<rparr>)
                 (int (length (keys ln)) - 1) copyFrom 0)) (\<lambda>ln'.
     bnd (setNode n ln') (\<lambda>_.
     bnd (allocPointer (PNode right)) (\<lambda>pright.
     bnd (setLastPointer n pright) (\<lambda>err'.
     case err' of Inl msg \<Rightarrow> panic (Panic msg) | Inr _ \<Rightarrow>
     let left = n;
         insertNode = (if insertPos \<ge> middlePos then right else left);
         insertPos' = (if insertPos \<ge> middlePos then insertPos - middlePos else insertPos)
     in
     bnd (allocPointer (PValue v)) (\<lambda>pv.
     bnd (insertAt insertNode insertPos' insertPos' k pv) (\<lambda>_.
     ret (left, right))))))))))))))))))))"

text \<open>
  The loop of lines 157-174. \<open>left\<close> and \<open>right\<close> are never nil, so the loop ends only at
  a \<open>break\<close>; it climbs the parent links, which the store does not bound.
\<close>

fun putIntoLeaf_propagate :: "nat \<Rightarrow> nat option \<Rightarrow> bytes \<Rightarrow> nat \<Rightarrow> nat \<Rightarrow> unit prog" where
  "putIntoLeaf_propagate 0 parent' insertKey left right = panic OutOfFuel"
| "putIntoLeaf_propagate (Suc fuel) parent' insertKey left right =
     (case parent' of
        None \<Rightarrow> putIntoNewRoot insertKey left right
      | Some pr \<Rightarrow>
          bnd (getNode pr) (\<lambda>pn.
          if keyNums pn < int (length (keys pn))
          then putIntoParent pr insertKey left right
          else bnd (putIntoParentAndSplit pr insertKey left right) (\<lambda>(insertKey', left', right').
               bnd (getNode pr) (\<lambda>pn'.
               putIntoLeaf_propagate fuel (parent pn') insertKey' left' right'))))"

text \<open>
  The scan of lines 120-134: the position, and whether the loop left by the exact match.
\<close>

function putIntoLeaf_scan :: "node \<Rightarrow> bytes \<Rightarrow> int \<Rightarrow> error + (int \<times> bool)" where
  "putIntoLeaf_scan nd k insertPos =
     (if insertPos < keyNums nd
      then (case idx (keys nd) insertPos of
              Inl e \<Rightarrow> Inl e
            | Inr k' \<Rightarrow>
                (let cmp = bytes_Compare k k' in
                 if cmp = 0 then Inr (insertPos, True)
                 else if cmp < 0 then Inr (insertPos, False)
                 else putIntoLeaf_scan nd k (insertPos + 1)))
      else Inr (insertPos, False))"
  by pat_completeness auto

termination
  by (relation "measure (\<lambda>(nd, k, i). nat (keyNums nd - i))") auto

declare putIntoLeaf_scan.simps [simp del]

definition putIntoLeaf :: "nat \<Rightarrow> nat \<Rightarrow> bytes \<Rightarrow> bytes \<Rightarrow> (bytes \<times> bool) prog" where
  "putIntoLeaf fuel n k v =
     bnd (getNode n) (\<lambda>nd.
     bnd (lift (putIntoLeaf_scan nd k 0)) (\<lambda>(insertPos, matched).
     if matched
     then bnd (lift (idx (pointers nd) insertPos)) (\<lambda>p.
          bnd (overrideValue p v) (\<lambda>oldValue.
          ret (oldValue, True)))
     else bnd (if keyNums nd < int (length (keys nd))
               then bnd (lift (shiftRight (keys nd) (keyNums nd) insertPos)) (\<lambda>ks.
                    bnd (lift (shiftRight (pointers nd) (keyNums nd) insertPos)) (\<lambda>ps.
                    bnd (lift (upd ks insertPos k)) (\<lambda>ks'.
                    bnd (allocPointer (PValue v)) (\<lambda>p.
                    bnd (lift (upd ps insertPos p)) (\<lambda>ps'.
                    setNode n (nd\<lparr>keys := ks', pointers := ps',
                                  keyNums := keyNums nd + 1\<rparr>))))))
               else bnd (putIntoLeafAndSplit n insertPos k v) (\<lambda>(left, right).
                    bnd (getNode right) (\<lambda>rn.
                    bnd (lift (idx (keys rn) 0)) (\<lambda>insertKey.
                    putIntoLeaf_propagate fuel (parent nd) insertKey left right)))) (\<lambda>_.
          bnd (modify (\<lambda>s. s\<lparr>size_bpt := size_bpt s + 1\<rparr>)) (\<lambda>_.
          ret ([], False)))))"

definition Put :: "nat \<Rightarrow> bytes \<Rightarrow> bytes \<Rightarrow> (bytes \<times> bool) prog" where
  "Put fuel key v =
     bnd (gets root) (\<lambda>r.
     if r = None
     then bnd (init key v) (\<lambda>_. ret ([], False))
     else bnd (findLeafByKey fuel key) (\<lambda>targetLeaf.
          putIntoLeaf fuel targetLeaf key v))"

section \<open>BPlusTree: deletion\<close>

fun findLeftmostKey_loop :: "nat \<Rightarrow> nat \<Rightarrow> bytes prog" where
  "findLeftmostKey_loop 0 current = panic OutOfFuel"
| "findLeftmostKey_loop (Suc fuel) current =
     bnd (getNode current) (\<lambda>cur.
     if \<not> leaf cur
     then bnd (lift (idx (pointers cur) 0)) (\<lambda>p.
          bnd (convertToNode p) (\<lambda>c.
          findLeftmostKey_loop fuel c))
     else lift (idx (keys cur) 0))"

definition findLeftmostKey :: "nat \<Rightarrow> nat \<Rightarrow> bytes prog" where
  "findLeftmostKey fuel n = findLeftmostKey_loop fuel n"

text \<open>
  \<open>removeFromIndex\<close>. The inner loop (lines 437-449) does not advance \<open>position\<close> in the
  branch that rewrites the separator: it compares the key with the new separator on the
  next turn. Neither loop has a bound of its own.
\<close>

fun removeFromIndex_scan :: "nat \<Rightarrow> nat \<Rightarrow> bytes \<Rightarrow> nat \<Rightarrow> int \<Rightarrow> int prog" where
  "removeFromIndex_scan fuel0 0 key current position = panic OutOfFuel"
| "removeFromIndex_scan fuel0 (Suc fuel) key current position =
     bnd (getNode current) (\<lambda>cur.
     if position < keyNums cur
     then bnd (lift (idx (keys cur) position)) (\<lambda>k'.
          let cmp = bytes_Compare key k' in
          if cmp < 0 then ret position
          else if cmp > 0 then removeFromIndex_scan fuel0 fuel key current (position + 1)
          else bnd (lift (idx (pointers cur) (position + 1))) (\<lambda>p.
               bnd (convertToNode p) (\<lambda>c.
               bnd (findLeftmostKey fuel0 c) (\<lambda>lk.
               bnd (getNode current) (\<lambda>cur'.
               bnd (lift (upd (keys cur') position lk)) (\<lambda>ks.
               bnd (setNode current (cur'\<lparr>keys := ks\<rparr>)) (\<lambda>_.
               removeFromIndex_scan fuel0 fuel key current position)))))))
     else ret position)"

fun removeFromIndex_loop :: "nat \<Rightarrow> nat \<Rightarrow> bytes \<Rightarrow> nat \<Rightarrow> unit prog" where
  "removeFromIndex_loop fuel0 0 key current = panic OutOfFuel"
| "removeFromIndex_loop fuel0 (Suc fuel) key current =
     bnd (getNode current) (\<lambda>cur.
     if \<not> leaf cur
     then bnd (removeFromIndex_scan fuel0 fuel0 key current 0) (\<lambda>position.
          bnd (getNode current) (\<lambda>cur'.
          bnd (lift (idx (pointers cur') position)) (\<lambda>p.
          bnd (convertToNode p) (\<lambda>c.
          removeFromIndex_loop fuel0 fuel key c))))
     else ret ())"

definition removeFromIndex :: "nat \<Rightarrow> bytes \<Rightarrow> unit prog" where
  "removeFromIndex fuel key =
     bnd (gets root) (\<lambda>r.
     bnd (deref r) (\<lambda>current.
     removeFromIndex_loop fuel fuel key current))"

text \<open>
  \<open>rebalanceParentNode\<close> calls itself on the parent (line 612); the recursion follows the
  parent links and takes a step bound.
\<close>

fun rebalanceParentNode :: "nat \<Rightarrow> nat \<Rightarrow> nat \<Rightarrow> unit prog" where
  "rebalanceParentNode fuel0 0 n = panic OutOfFuel"
| "rebalanceParentNode fuel0 (Suc fuel) n =
     bnd (getNode n) (\<lambda>nd.
     case parent nd of
       None \<Rightarrow>
         if keyNums nd = 0
         then bnd (lift (idx (pointers nd) 0)) (\<lambda>p.
              bnd (convertToNode p) (\<lambda>c.
              bnd (modify (\<lambda>s. s\<lparr>root := Some c\<rparr>)) (\<lambda>_.
              setParent c None)))
         else ret ()
     | Some par \<Rightarrow>
         bnd (gets minKeyNum) (\<lambda>minK.
         if keyNums nd \<ge> minK then ret ()
         else
         bnd (getPointerPositionOfNode par n) (\<lambda>pointerPositionInParent.
         let keyPositionInParent =
               (if pointerPositionInParent - 1 < 0 then 0 else pointerPositionInParent - 1);
             leftSiblingPosition = pointerPositionInParent - 1;
             rightSiblingPosition = pointerPositionInParent + 1
         in
         bnd (if leftSiblingPosition \<ge> 0
              then bnd (getNode par) (\<lambda>pn.
                   bnd (lift (idx (pointers pn) leftSiblingPosition)) (\<lambda>p.
                   bnd (convertToNode p) (\<lambda>ls. ret (Some ls))))
              else ret None) (\<lambda>leftSibling.
         bnd (case leftSibling of
                None \<Rightarrow> ret False
              | Some ls \<Rightarrow> bnd (getNode ls) (\<lambda>lsn. ret (keyNums lsn > minK))) (\<lambda>borrowLeft.
         if borrowLeft
         then bnd (deref leftSibling) (\<lambda>ls.
              bnd (getNode par) (\<lambda>pn.
              bnd (lift (idx (keys pn) keyPositionInParent)) (\<lambda>splitKey.
              bnd (getNode ls) (\<lambda>lsn.
              bnd (lift (idx (pointers lsn) (keyNums lsn))) (\<lambda>lp.
              bnd (convertToNode lp) (\<lambda>c.
              bnd (setParent c (Some n)) (\<lambda>_.
              bnd (getNode ls) (\<lambda>lsn1.
              bnd (lift (idx (pointers lsn1) (keyNums lsn1))) (\<lambda>lp1.
              bnd (insertAt n 0 0 splitKey lp1) (\<lambda>_.
              bnd (getNode ls) (\<lambda>lsn2.
              bnd (lift (idx (keys lsn2) (keyNums lsn2 - 1))) (\<lambda>lk.
              bnd (getNode par) (\<lambda>pn2.
              bnd (lift (upd (keys pn2) keyPositionInParent lk)) (\<lambda>pks.
              bnd (setNode par (pn2\<lparr>keys := pks\<rparr>)) (\<lambda>_.
              bnd (getNode ls) (\<lambda>lsn3.
              deleteAt ls (keyNums lsn3 - 1) (keyNums lsn3)))))))))))))))))
         else
         bnd (getNode par) (\<lambda>pn.
         bnd (if rightSiblingPosition < keyNums pn + 1
              then bnd (lift (idx (pointers pn) rightSiblingPosition)) (\<lambda>p.
                   bnd (convertToNode p) (\<lambda>rs. ret (Some rs)))
              else ret None) (\<lambda>rightSibling.
         bnd (case rightSibling of
                None \<Rightarrow> ret False
              | Some rs \<Rightarrow> bnd (getNode rs) (\<lambda>rsn. ret (keyNums rsn > minK))) (\<lambda>borrowRight.
         if borrowRight
         then bnd (deref rightSibling) (\<lambda>rs.
              let splitKeyPosition = rightSiblingPosition - 1 in
              bnd (getNode par) (\<lambda>pn1.
              bnd (lift (idx (keys pn1) splitKeyPosition)) (\<lambda>splitKey.
              bnd (getNode rs) (\<lambda>rsn.
              bnd (lift (idx (pointers rsn) 0)) (\<lambda>rp.
              bnd (append_node n splitKey rp) (\<lambda>_.
              bnd (getNode rs) (\<lambda>rsn1.
              bnd (lift (idx (keys rsn1) 0)) (\<lambda>rk.
              bnd (getNode par) (\<lambda>pn2.
              bnd (lift (upd (keys pn2) splitKeyPosition rk)) (\<lambda>pks.
              bnd (setNode par (pn2\<lparr>keys := pks\<rparr>)) (\<lambda>_.
              deleteAt rs 0 0)))))))))))
         else
         bnd (case leftSibling of
                Some ls \<Rightarrow>
                  bnd (getNode par) (\<lambda>pn1.
                  bnd (lift (idx (keys pn1) keyPositionInParent)) (\<lambda>splitKey.
                  bnd (getNode ls) (\<lambda>lsn.
                  bnd (lift (upd (keys lsn) (keyNums lsn) splitKey)) (\<lambda>lks.
                  bnd (setNode ls (lsn\<lparr>keys := lks, keyNums := keyNums lsn + 1\<rparr>)) (\<lambda>_.
                  bnd (copyFromRight fuel0 ls n) (\<lambda>_.
                  deleteAt par keyPositionInParent pointerPositionInParent))))))
              | None \<Rightarrow>
                  (case rightSibling of
                     Some rs \<Rightarrow>
                       bnd (getNode par) (\<lambda>pn1.
                       bnd (lift (idx (keys pn1) keyPositionInParent)) (\<lambda>splitKey.
                       bnd (getNode n) (\<lambda>nd1.
                       bnd (lift (upd (keys nd1) (keyNums nd1) splitKey)) (\<lambda>nks.
                       bnd (setNode n (nd1\<lparr>keys := nks, keyNums := keyNums nd1 + 1\<rparr>)) (\<lambda>_.
                       bnd (copyFromRight fuel0 n rs) (\<lambda>_.
                       deleteAt par keyPositionInParent rightSiblingPosition))))))
                   | None \<Rightarrow> ret ())) (\<lambda>_.
         rebalanceParentNode fuel0 fuel par)))))))))"

definition rebalancedFromLeafNode :: "nat \<Rightarrow> nat \<Rightarrow> unit prog" where
  "rebalancedFromLeafNode fuel n =
     bnd (getNode n) (\<lambda>nd.
     bnd (deref (parent nd)) (\<lambda>par.
     bnd (gets minKeyNum) (\<lambda>minK.
     bnd (getPointerPositionOfNode par n) (\<lambda>pointerPositionInParent.
     let keyPositionInParent =
           (if pointerPositionInParent - 1 < 0 then 0 else pointerPositionInParent - 1);
         leftSiblingPosition = pointerPositionInParent - 1;
         rightSiblingPosition = pointerPositionInParent + 1
     in
     bnd (if leftSiblingPosition \<ge> 0
          then bnd (getNode par) (\<lambda>pn.
               bnd (lift (idx (pointers pn) leftSiblingPosition)) (\<lambda>p.
               bnd (convertToNode p) (\<lambda>ls. ret (Some ls))))
          else ret None) (\<lambda>leftSibling.
     bnd (case leftSibling of
            None \<Rightarrow> ret False
          | Some ls \<Rightarrow> bnd (getNode ls) (\<lambda>lsn. ret (keyNums lsn > minK))) (\<lambda>borrowLeft.
     if borrowLeft
     then bnd (deref leftSibling) (\<lambda>ls.
          bnd (getNode ls) (\<lambda>lsn.
          bnd (lift (idx (keys lsn) (keyNums lsn - 1))) (\<lambda>lk.
          bnd (lift (idx (pointers lsn) (keyNums lsn - 1))) (\<lambda>lp.
          bnd (insertAt n 0 0 lk lp) (\<lambda>_.
          bnd (getNode ls) (\<lambda>lsn1.
          bnd (deleteAt ls (keyNums lsn1 - 1) (keyNums lsn1 - 1)) (\<lambda>_.
          bnd (getNode n) (\<lambda>nd1.
          bnd (lift (idx (keys nd1) 0)) (\<lambda>nk.
          bnd (getNode par) (\<lambda>pn1.
          bnd (lift (upd (keys pn1) keyPositionInParent nk)) (\<lambda>pks.
          setNode par (pn1\<lparr>keys := pks\<rparr>))))))))))))
     else
     bnd (getNode par) (\<lambda>pn.
     bnd (if rightSiblingPosition < keyNums pn + 1
          then bnd (lift (idx (pointers pn) rightSiblingPosition)) (\<lambda>p.
               bnd (convertToNode p) (\<lambda>rs. ret (Some rs)))
          else ret None) (\<lambda>rightSibling.
     bnd (case rightSibling of
            None \<Rightarrow> ret False
          | Some rs \<Rightarrow> bnd (getNode rs) (\<lambda>rsn. ret (keyNums rsn > minK))) (\<lambda>borrowRight.
     if borrowRight
     then bnd (deref rightSibling) (\<lambda>rs.
          bnd (getNode rs) (\<lambda>rsn.
          bnd (lift (idx (keys rsn) 0)) (\<lambda>rk.
          bnd (lift (idx (pointers rsn) 0)) (\<lambda>rp.
          bnd (append_node n rk rp) (\<lambda>_.
          bnd (deleteAt rs 0 0) (\<lambda>_.
          bnd (getNode rs) (\<lambda>rsn1.
          bnd (lift (idx (keys rsn1) 0)) (\<lambda>rk1.
          bnd (getNode par) (\<lambda>pn1.
          bnd (lift (upd (keys pn1) (rightSiblingPosition - 1) rk1)) (\<lambda>pks.
          setNode par (pn1\<lparr>keys := pks\<rparr>)))))))))))
     else
     bnd (case leftSibling of
            Some ls \<Rightarrow>
              bnd (copyFromRight fuel ls n) (\<lambda>_.
              deleteAt par keyPositionInParent pointerPositionInParent)
          | None \<Rightarrow>
              (case rightSibling of
                 Some rs \<Rightarrow>
                   bnd (copyFromRight fuel n rs) (\<lambda>_.
                   deleteAt par keyPositionInParent rightSiblingPosition)
               | None \<Rightarrow> ret ())) (\<lambda>_.
     rebalanceParentNode fuel fuel par))))))))))"

definition deleteAtLeafAndRebalance :: "nat \<Rightarrow> nat \<Rightarrow> bytes \<Rightarrow> (bytes \<times> bool) prog" where
  "deleteAtLeafAndRebalance fuel n key =
     bnd (keyPosition n key) (\<lambda>keyPos.
     if keyPos = - 1 then ret ([], False)
     else
     bnd (getNode n) (\<lambda>nd.
     bnd (lift (idx (pointers nd) keyPos)) (\<lambda>p.
     bnd (convertToValue p) (\<lambda>v.
     bnd (deleteAt n keyPos keyPos) (\<lambda>_.
     bnd (getNode n) (\<lambda>nd1.
     if parent nd1 = None
     then bnd (if keyNums nd1 = 0 then modify (\<lambda>s. s\<lparr>root := None\<rparr>) else ret ()) (\<lambda>_.
          ret (v, True))
     else
     bnd (gets minKeyNum) (\<lambda>minK.
     bnd (if keyNums nd1 < minK then rebalancedFromLeafNode fuel n else ret ()) (\<lambda>_.
     bnd (removeFromIndex fuel key) (\<lambda>_.
     ret (v, True))))))))))"

definition Delete :: "nat \<Rightarrow> bytes \<Rightarrow> (bytes \<times> bool) prog" where
  "Delete fuel key =
     bnd (gets root) (\<lambda>r.
     if r = None then ret ([], False)
     else
     bnd (findLeafByKey fuel key) (\<lambda>leaf'.
     bnd (deleteAtLeafAndRebalance fuel leaf' key) (\<lambda>(v, deleted).
     if \<not> deleted then ret ([], False)
     else bnd (modify (\<lambda>s. s\<lparr>size_bpt := size_bpt s - 1\<rparr>)) (\<lambda>_.
          ret (v, True)))))"

section \<open>Iterator\<close>

text \<open>
  The iterator is an object of its own, outside the tree: \<open>Next\<close> returns the advanced
  iterator with the pair. \<open>ForEach\<close> hands the pairs to \<open>action\<close> in order; the model
  returns them as a list. The leaf chain is not bounded by the store (it may be cyclic),
  so the loop takes a step bound.
\<close>

definition Iterator_bpt :: "Iterator prog" where
  "Iterator_bpt = bnd (gets mostLeftNode) (\<lambda>m. ret \<lparr>it_next = m, it_i = 0\<rparr>)"

definition HasNext :: "Iterator \<Rightarrow> bool prog" where
  "HasNext it =
     (case it_next it of
        None \<Rightarrow> ret False
      | Some n \<Rightarrow> bnd (getNode n) (\<lambda>nd. ret (it_i it < keyNums nd)))"

definition Next :: "Iterator \<Rightarrow> ((bytes \<times> bytes) \<times> Iterator) prog" where
  "Next it =
     bnd (HasNext it) (\<lambda>h.
     if \<not> h then panic (Panic ''there is no next node'')
     else
     bnd (deref (it_next it)) (\<lambda>n.
     bnd (getNode n) (\<lambda>nd.
     bnd (lift (idx (keys nd) (it_i it))) (\<lambda>key.
     bnd (lift (idx (pointers nd) (it_i it))) (\<lambda>p.
     bnd (convertToValue p) (\<lambda>v.
     let i' = it_i it + 1 in
     if i' = keyNums nd
     then bnd (pointerToNextLeafNode n) (\<lambda>lastPointer.
          if lastPointer \<noteq> None
          then bnd (convertToNode lastPointer) (\<lambda>c.
               ret ((key, v), \<lparr>it_next = Some c, it_i = 0\<rparr>))
          else ret ((key, v), \<lparr>it_next = None, it_i = 0\<rparr>))
     else ret ((key, v), it\<lparr>it_i := i'\<rparr>)))))))"

fun ForEach_loop :: "nat \<Rightarrow> Iterator \<Rightarrow> (bytes \<times> bytes) list \<Rightarrow> (bytes \<times> bytes) list prog" where
  "ForEach_loop 0 it visited = panic OutOfFuel"
| "ForEach_loop (Suc fuel) it visited =
     bnd (HasNext it) (\<lambda>h.
     if h
     then bnd (Next it) (\<lambda>(kv, it').
          ForEach_loop fuel it' (visited @ [kv]))
     else ret visited)"

definition ForEach :: "nat \<Rightarrow> (bytes \<times> bytes) list prog" where
  "ForEach fuel = bnd Iterator_bpt (\<lambda>it. ForEach_loop fuel it [])"

section \<open>Scenarios and example trees\<close>

text \<open>
  Running a sequence of calls on a freshly constructed tree: \<open>thn\<close> is the next
  statement, \<open>run\<close> keeps the last result and \<open>exec\<close> the state too, \<open>Puts\<close> puts each
  key with itself as value,
  and \<open>child n i\<close> is \<open>n.pointers[i].convertToNode()\<close>.
\<close>

definition thn :: "'a prog \<Rightarrow> 'b prog \<Rightarrow> 'b prog" where
  "thn m1 m2 = bnd m1 (\<lambda>_. m2)"

definition run :: "'a prog \<Rightarrow> error + BPlusTree \<Rightarrow> error + 'a" where
  "run m t = (case t of Inl e \<Rightarrow> Inl e
              | Inr s \<Rightarrow> (case m s of Inl e \<Rightarrow> Inl e | Inr (a, s') \<Rightarrow> Inr a))"

definition exec :: "'a prog \<Rightarrow> error + BPlusTree \<Rightarrow> error + 'a \<times> BPlusTree" where
  "exec m t = (case t of Inl e \<Rightarrow> Inl e | Inr s \<Rightarrow> m s)"

fun Puts :: "nat \<Rightarrow> bytes list \<Rightarrow> unit prog" where
  "Puts fuel [] = ret ()"
| "Puts fuel (k # ks) = bnd (Put fuel k k) (\<lambda>_. Puts fuel ks)"

definition child :: "nat \<Rightarrow> int \<Rightarrow> nat prog" where
  "child n i = bnd (getNode n) (\<lambda>nd. bnd (lift (idx (pointers nd) i)) convertToNode)"

text \<open>
  The tree of order 3 after \<open>Put\<close> of the keys 1, 2, 3 (each with itself as value): the
  first leaf (node 0) came from \<open>init\<close>, node 1 from the split, node 2 is the root.
\<close>

definition tree123 :: BPlusTree where
  "tree123 =
     \<lparr>nodes =
        [\<lparr>leaf = True, parent = Some 2, keys = [[], []], keyNums = 1,
          pointers = [Some 0, Some 2]\<rparr>,
         \<lparr>leaf = True, parent = Some 2, keys = [[2], [3]], keyNums = 2,
          pointers = [None, Some 3, Some 1]\<rparr>,
         \<lparr>leaf = False, parent = None, keys = [[2], []], keyNums = 1,
          pointers = [Some 4, Some 5, None]\<rparr>],
      cells = [PValue [1], PValue [2], PNode 1, PValue [3], PNode 0, PNode 1],
      root = Some 2, mostLeftNode = Some 0, order = 3, size_bpt = 3, minKeyNum = 1\<rparr>"

text \<open>
  The leaf 0 of \<open>tree123\<close> after \<open>deleteAt(0, 0)\<close> took its only key (the state in which
  \<open>Delete("")\<close> calls \<open>rebalancedFromLeafNode\<close>), and the tree of order 3 holding 1..6 at
  the moment \<open>Delete("")\<close> calls \<open>rebalanceParentNode\<close> on node 2: leaf 0 has taken over
  leaf 1, and node 2 is left without a key beside its sibling 5 with two.
\<close>

definition leafUnderflow :: BPlusTree where
  "leafUnderflow =
     \<lparr>nodes =
        [\<lparr>leaf = True, parent = Some 2, keys = [[], []], keyNums = 0,
          pointers = [None, Some 2]\<rparr>,
         \<lparr>leaf = True, parent = Some 2, keys = [[2], [3]], keyNums = 2,
          pointers = [None, Some 3, Some 1]\<rparr>,
         \<lparr>leaf = False, parent = None, keys = [[2], []], keyNums = 1,
          pointers = [Some 4, Some 5, None]\<rparr>],
      cells = [PValue [1], PValue [2], PNode 1, PValue [3], PNode 0, PNode 1],
      root = Some 2, mostLeftNode = Some 0, order = 3, size_bpt = 3, minKeyNum = 1\<rparr>"

definition internalUnderflow :: BPlusTree where
  "internalUnderflow =
     \<lparr>nodes =
        [\<lparr>leaf = True, parent = Some 2, keys = [[2], []], keyNums = 1,
          pointers = [None, Some 6]\<rparr>,
         \<lparr>leaf = True, parent = Some 2, keys = [[2], []], keyNums = 1,
          pointers = [None, None, Some 6]\<rparr>,
         \<lparr>leaf = False, parent = Some 6, keys = [[], []], keyNums = 0,
          pointers = [Some 4, None, None]\<rparr>,
         \<lparr>leaf = True, parent = Some 5, keys = [[3], []], keyNums = 1,
          pointers = [Some 3, None, Some 10]\<rparr>,
         \<lparr>leaf = True, parent = Some 5, keys = [[4], []], keyNums = 1,
          pointers = [Some 7, None, Some 16]\<rparr>,
         \<lparr>leaf = False, parent = Some 6, keys = [[4], [5]], keyNums = 2,
          pointers = [Some 12, Some 18, Some 19]\<rparr>,
         \<lparr>leaf = False, parent = None, keys = [[3], []], keyNums = 1,
          pointers = [Some 14, Some 15, None]\<rparr>,
         \<lparr>leaf = True, parent = Some 5, keys = [[5], [6]], keyNums = 2,
          pointers = [Some 11, Some 17, Some 1]\<rparr>],
      cells =
        [PValue [1], PValue [2], PNode 1, PValue [3], PNode 0, PNode 1, PNode 3,
         PValue [4], PNode 1, PNode 3, PNode 4, PValue [5], PNode 3, PNode 4, PNode 2,
         PNode 5, PNode 7, PValue [6], PNode 4, PNode 7],
      root = Some 6, mostLeftNode = Some 0, order = 3, size_bpt = 6, minKeyNum = 1\<rparr>"

text \<open>
  \<open>internalUnderflow\<close> after \<open>rebalanceParentNode\<close> on node 2: node 2 holds the old
  separator 3 and the child 3, the root's separator is 4, and node 5 is left with the key
  5 (and with the same child in both of its slots).
\<close>

definition internalBorrowed :: BPlusTree where
  "internalBorrowed =
     internalUnderflow\<lparr>nodes := (nodes internalUnderflow)
       [2 := \<lparr>leaf = False, parent = Some 6, keys = [[3], []], keyNums = 1,
               pointers = [Some 4, Some 12, None]\<rparr>,
        3 := \<lparr>leaf = True, parent = Some 2, keys = [[3], []], keyNums = 1,
               pointers = [Some 3, None, Some 10]\<rparr>,
        5 := \<lparr>leaf = False, parent = Some 6, keys = [[5], []], keyNums = 1,
               pointers = [Some 18, Some 18, None]\<rparr>,
        6 := \<lparr>leaf = False, parent = None, keys = [[4], []], keyNums = 1,
               pointers = [Some 14, Some 15, None]\<rparr>]\<rparr>"

text \<open>
  The tree of order 3 after \<open>Put\<close> of 1..6 and \<open>Delete(3)\<close> (\<open>staleLeafTree\<close>): the leaf
  merge took leaf 4 into leaf 3, yet the parent 5 still points to leaf 4. \<open>Delete(4)\<close> on
  it empties leaf 3 (\<open>emptiedLeafTree\<close>), merges the stale leaf 4 back and collapses the
  tree to the root 2 (\<open>loopTree\<close>), whose separator 4 equals the leftmost key of the
  subtree right of it. There the inner loop of \<open>removeFromIndex\<close> rewrites the separator
  with the same key and compares again, for any step bound.
\<close>

definition staleLeafTree :: BPlusTree where
  "staleLeafTree =
     \<lparr>nodes =
        [\<lparr>leaf = True, parent = Some 2, keys = [[], []], keyNums = 1,
          pointers = [Some 0, Some 2]\<rparr>,
         \<lparr>leaf = True, parent = Some 2, keys = [[2], []], keyNums = 1,
          pointers = [None, None, Some 6]\<rparr>,
         \<lparr>leaf = False, parent = Some 6, keys = [[2], []], keyNums = 1,
          pointers = [Some 4, Some 8, None]\<rparr>,
         \<lparr>leaf = True, parent = Some 5, keys = [[4], []], keyNums = 1,
          pointers = [Some 7, None, Some 16]\<rparr>,
         \<lparr>leaf = True, parent = Some 5, keys = [[4], []], keyNums = 1,
          pointers = [Some 7, None, Some 16]\<rparr>,
         \<lparr>leaf = False, parent = Some 6, keys = [[5], []], keyNums = 1,
          pointers = [Some 12, Some 18, None]\<rparr>,
         \<lparr>leaf = False, parent = None, keys = [[4], []], keyNums = 1,
          pointers = [Some 14, Some 15, None]\<rparr>,
         \<lparr>leaf = True, parent = Some 5, keys = [[5], [6]], keyNums = 2,
          pointers = [Some 11, Some 17, Some 1]\<rparr>],
      cells =
        [PValue [1], PValue [2], PNode 1, PValue [3], PNode 0, PNode 1, PNode 3,
         PValue [4], PNode 1, PNode 3, PNode 4, PValue [5], PNode 3, PNode 4, PNode 2,
         PNode 5, PNode 7, PValue [6], PNode 4, PNode 7],
      root = Some 6, mostLeftNode = Some 0, order = 3, size_bpt = 5, minKeyNum = 1\<rparr>"

definition emptiedLeafTree :: BPlusTree where
  "emptiedLeafTree =
     staleLeafTree\<lparr>nodes := (nodes staleLeafTree)
       [3 := \<lparr>leaf = True, parent = Some 5, keys = [[], []], keyNums = 0,
               pointers = [None, None, Some 16]\<rparr>]\<rparr>"

definition loopTree :: BPlusTree where
  "loopTree =
     \<lparr>nodes =
        [\<lparr>leaf = True, parent = Some 2, keys = [[], []], keyNums = 1,
          pointers = [Some 0, Some 2]\<rparr>,
         \<lparr>leaf = True, parent = Some 2, keys = [[2], []], keyNums = 1,
          pointers = [None, None, Some 6]\<rparr>,
         \<lparr>leaf = False, parent = None, keys = [[2], [4]], keyNums = 2,
          pointers = [Some 4, Some 8, Some 12]\<rparr>,
         \<lparr>leaf = True, parent = Some 2, keys = [[4], []], keyNums = 1,
          pointers = [Some 7, None, Some 16]\<rparr>,
         \<lparr>leaf = True, parent = Some 5, keys = [[4], []], keyNums = 1,
          pointers = [Some 7, None, Some 16]\<rparr>,
         \<lparr>leaf = False, parent = Some 6, keys = [[], []], keyNums = 0,
          pointers = [Some 12, None, None]\<rparr>,
         \<lparr>leaf = False, parent = None, keys = [[], []], keyNums = 0,
          pointers = [Some 14, None, None]\<rparr>,
         \<lparr>leaf = True, parent = Some 5, keys = [[5], [6]], keyNums = 2,
          pointers = [Some 11, Some 17, Some 1]\<rparr>],
      cells =
        [PValue [1], PValue [2], PNode 1, PValue [3], PNode 0, PNode 1, PNode 3,
         PValue [4], PNode 1, PNode 3, PNode 4, PValue [5], PNode 3, PNode 4, PNode 2,
         PNode 5, PNode 7, PValue [6], PNode 4, PNode 7],
      root = Some 2, mostLeftNode = Some 0, order = 3, size_bpt = 5, minKeyNum = 1\<rparr>"

section \<open>Properties\<close>

text \<open>
  A call that, whenever it returns, returns in the state it started from.
\<close>

definition readOnly :: "'a prog \<Rightarrow> bool" where
  "readOnly m = (\<forall>s a s'. m s = Inr (a, s') \<longrightarrow> s' = s)"

text \<open>
  The situation of a borrow from the right sibling, as the two rebalance functions test
  it: n is the child of par found at pointer position pp, its left sibling is missing or
  has no key to spare, and rs, the child at pp + 1, has more than \<open>minKeyNum\<close> keys. The
  three nodes are distinct, of the same kind, and their key counts fit their slices.
  \<open>internalLender\<close> adds what the internal case reads: n is below \<open>minKeyNum\<close>, its
  last child slot is taken, and the first pointer of rs is a child c other than the
  three nodes.

  \<open>borrowedFirstEntry\<close> is the outcome as stated for both kinds of node: the first key
  and first pointer of rs now end n, and the separator is the new first key of rs.
  \<open>rotatedThroughParent\<close> is what the internal case does instead: the old separator and
  the first pointer of rs end n, the moved child's parent is n, and the separator is the
  former first key of rs. \<open>firstEntryRemoved\<close>: rs has one key less and its remaining
  keys and pointers moved one slot to the left.
\<close>

definition rightLender :: "BPlusTree \<Rightarrow> nat \<Rightarrow> nat \<Rightarrow> int \<Rightarrow> nat \<Rightarrow> bool" where
  "rightLender s n par pp rs =
     (n < length (nodes s) \<and> par < length (nodes s) \<and> rs < length (nodes s)
      \<and> n \<noteq> par \<and> n \<noteq> rs \<and> rs \<noteq> par
      \<and> parent (nodes s ! n) = Some par
      \<and> getPointerPositionOfNode par n s = Inr (pp, s) \<and> 0 \<le> pp
      \<and> (pp = 0 \<or> (case child par (pp - 1) s of
                       Inl e \<Rightarrow> False
                     | Inr (ls, s1) \<Rightarrow> ls < length (nodes s)
                                     \<and> keyNums (nodes s ! ls) \<le> minKeyNum s))
      \<and> pp < keyNums (nodes s ! par)
      \<and> keyNums (nodes s ! par) \<le> int (length (keys (nodes s ! par)))
      \<and> child par (pp + 1) s = Inr (rs, s)
      \<and> 0 \<le> minKeyNum s \<and> minKeyNum s < keyNums (nodes s ! rs)
      \<and> leaf (nodes s ! rs) = leaf (nodes s ! n)
      \<and> keyNums (nodes s ! rs) \<le> int (length (keys (nodes s ! rs)))
      \<and> (if leaf (nodes s ! rs) then keyNums (nodes s ! rs) else keyNums (nodes s ! rs) + 1)
          \<le> int (length (pointers (nodes s ! rs)))
      \<and> 0 \<le> keyNums (nodes s ! n)
      \<and> keyNums (nodes s ! n) < int (length (keys (nodes s ! n)))
      \<and> (if leaf (nodes s ! n) then keyNums (nodes s ! n) else keyNums (nodes s ! n) + 1)
          < int (length (pointers (nodes s ! n))))"

definition internalLender :: "BPlusTree \<Rightarrow> nat \<Rightarrow> nat \<Rightarrow> nat \<Rightarrow> bool" where
  "internalLender s n par rs =
     (keyNums (nodes s ! n) < minKeyNum s
      \<and> pointers (nodes s ! n) ! nat (keyNums (nodes s ! n)) \<noteq> None
      \<and> (case convertToNode (pointers (nodes s ! rs) ! 0) s of
            Inl e \<Rightarrow> False
          | Inr (c, s1) \<Rightarrow> c < length (nodes s) \<and> c \<noteq> n \<and> c \<noteq> par \<and> c \<noteq> rs))"

definition borrowedFirstEntry ::
  "BPlusTree \<Rightarrow> BPlusTree \<Rightarrow> nat \<Rightarrow> nat \<Rightarrow> int \<Rightarrow> nat \<Rightarrow> bool" where
  "borrowedFirstEntry s s' n par pp rs =
     (keyNums (nodes s' ! n) = keyNums (nodes s ! n) + 1
      \<and> keys (nodes s' ! n) ! nat (keyNums (nodes s ! n)) = keys (nodes s ! rs) ! 0
      \<and> pointers (nodes s' ! n)
            ! (if leaf (nodes s ! n) then nat (keyNums (nodes s ! n))
               else nat (keyNums (nodes s ! n)) + 1)
          = pointers (nodes s ! rs) ! 0
      \<and> keys (nodes s' ! par) ! nat pp = keys (nodes s' ! rs) ! 0)"

definition rotatedThroughParent ::
  "BPlusTree \<Rightarrow> BPlusTree \<Rightarrow> nat \<Rightarrow> nat \<Rightarrow> int \<Rightarrow> nat \<Rightarrow> bool" where
  "rotatedThroughParent s s' n par pp rs =
     (keyNums (nodes s' ! n) = keyNums (nodes s ! n) + 1
      \<and> keys (nodes s' ! n) ! nat (keyNums (nodes s ! n)) = keys (nodes s ! par) ! nat pp
      \<and> pointers (nodes s' ! n) ! (nat (keyNums (nodes s ! n)) + 1)
          = pointers (nodes s ! rs) ! 0
      \<and> (case convertToNode (pointers (nodes s ! rs) ! 0) s of
            Inl e \<Rightarrow> False
          | Inr (c, s1) \<Rightarrow> parent (nodes s' ! c) = Some n)
      \<and> keys (nodes s' ! par) ! nat pp = keys (nodes s ! rs) ! 0)"

definition firstEntryRemoved :: "BPlusTree \<Rightarrow> BPlusTree \<Rightarrow> nat \<Rightarrow> bool" where
  "firstEntryRemoved s s' rs =
     (keyNums (nodes s' ! rs) = keyNums (nodes s ! rs) - 1
      \<and> take (nat (keyNums (nodes s ! rs) - 1)) (keys (nodes s' ! rs))
          = take (nat (keyNums (nodes s ! rs) - 1)) (drop 1 (keys (nodes s ! rs)))
      \<and> take (nat (keyNums (nodes s ! rs) - 1)) (pointers (nodes s' ! rs))
          = take (nat (keyNums (nodes s ! rs) - 1)) (drop 1 (pointers (nodes s ! rs))))"

section \<open>The example trees are reachable\<close>

lemma tree123_reachable:
  "(case NewBPlusTree [3] of Inl e \<Rightarrow> Inl e | Inr t \<Rightarrow> Puts 9 [[1], [2], [3]] t)
   = Inr ((), tree123)"
  by code_simp

lemma leafUnderflow_reachable:
  "exec (deleteAt 0 0 0) (Inr tree123) = Inr ((), leafUnderflow)"
  by code_simp

lemma internalUnderflow_reachable:
  "exec (thn (Puts 9 [[1], [2], [3], [4], [5], [6]])
          (thn (deleteAt 0 0 0) (thn (copyFromRight 9 0 1) (deleteAt 2 0 1))))
     (NewBPlusTree [3])
   = Inr ((), internalUnderflow)"
  by code_simp

lemma staleLeafTree_reachable:
  "exec (thn (Puts 9 [[1], [2], [3], [4], [5], [6]]) (Delete 9 [3])) (NewBPlusTree [3])
   = Inr (([3], True), staleLeafTree)"
  by code_simp

section \<open>Lookup reads only\<close>

lemma readOnly_Inr: "readOnly m \<Longrightarrow> m s = Inr (a, s') \<Longrightarrow> s' = s"
  unfolding readOnly_def by blast

lemma readOnly_ret: "readOnly (ret a)"
  by (simp add: readOnly_def ret_def)

lemma readOnly_panic: "readOnly (panic e)"
  by (simp add: readOnly_def panic_def)

lemma readOnly_lift: "readOnly (lift r)"
  by (auto simp: readOnly_def lift_def split: sum.splits)

lemma readOnly_gets: "readOnly (gets g)"
  by (simp add: readOnly_def gets_def)

lemma readOnly_getNode: "readOnly (getNode r)"
  by (auto simp: readOnly_def getNode_def split: if_splits)

lemma readOnly_bnd: "readOnly m \<Longrightarrow> (\<And>a. readOnly (f a)) \<Longrightarrow> readOnly (bnd m f)"
  unfolding readOnly_def bnd_def by (fastforce split: sum.splits prod.splits)

lemma readOnly_deref: "readOnly (deref p)"
  by (cases p) (simp_all add: deref_def readOnly_ret readOnly_panic)

lemma readOnly_getCell: "readOnly (getCell p)"
  by (cases p) (auto simp: getCell_def readOnly_def panic_def split: if_splits)

lemma readOnly_convertToNode: "readOnly (convertToNode p)"
  unfolding convertToNode_def
  by (intro readOnly_bnd readOnly_getCell)
     (simp add: readOnly_ret readOnly_panic split: pointer.split)

lemma readOnly_convertToValue: "readOnly (convertToValue p)"
  unfolding convertToValue_def
  by (intro readOnly_bnd readOnly_getCell)
     (simp add: readOnly_ret readOnly_panic split: pointer.split)

lemma readOnly_findLeafByKey_loop: "readOnly (findLeafByKey_loop fuel key current)"
proof (induction fuel arbitrary: current)
  case 0
  show ?case by (simp add: readOnly_panic)
next
  case (Suc fuel)
  show ?case
    by simp
       (intro readOnly_bnd readOnly_getNode,
        auto intro!: readOnly_bnd readOnly_lift readOnly_convertToNode readOnly_ret Suc.IH)
qed

lemma readOnly_findLeafByKey: "readOnly (findLeafByKey fuel key)"
  unfolding findLeafByKey_def
  by (intro readOnly_bnd readOnly_gets readOnly_deref readOnly_findLeafByKey_loop)

lemma readOnly_Get_loop: "readOnly (Get_loop nd key i)"
proof (induction nd key i rule: Get_loop.induct)
  case (1 targetLeaf key i)
  show ?case
    by (subst Get_loop.simps)
       (auto intro!: readOnly_bnd readOnly_lift readOnly_convertToValue readOnly_ret "1.IH")
qed

lemma readOnly_Get: "readOnly (Get fuel key)"
  unfolding Get_def
  by (auto intro!: readOnly_bnd readOnly_gets readOnly_ret readOnly_findLeafByKey
        readOnly_getNode readOnly_Get_loop)

text \<open>
  C10: \<open>Get\<close> never mutates the tree. Whenever \<open>Get(k)\<close> returns, with whatever result
  and from whatever state, the state after the call is the state before it: every field
  of the tree, every node and every pointer object.
\<close>

theorem Get_never_mutates: "Get fuel key s = Inr (r, s') \<Longrightarrow> s' = s"
  using readOnly_Get [of fuel key] unfolding readOnly_def by blast

theorem Get_never_mutates_witness:
  "\<exists>r s'. Get 9 [3] tree123 = Inr (r, s') \<and> s' = tree123"
proof -
  have h: "Get 9 [3] tree123 = Inr (([3], True), tree123)"
    by code_simp
  from Get_never_mutates [OF h] h show ?thesis by blast
qed

section \<open>Delete of a key that is not found\<close>

lemma bnd_Inr: "bnd m f s = Inr r \<Longrightarrow> \<exists>a s1. m s = Inr (a, s1) \<and> f a s1 = Inr r"
  by (auto simp: bnd_def split: sum.splits)

lemma Get_loop_absent:
  "Get_loop nd key i s = Inr ((v, False), s') \<Longrightarrow> keyPosition_loop nd key i = Inr (- 1)"
proof (induction nd key i rule: Get_loop.induct)
  case (1 nd key i)
  show ?case
  proof (cases "i < keyNums nd")
    case False
    then show ?thesis by (subst keyPosition_loop.simps) simp
  next
    case True
    from "1.prems" True obtain k where k: "idx (keys nd) i = Inr k"
      by (subst (asm) Get_loop.simps) (auto simp: bnd_def lift_def split: sum.splits)
    show ?thesis
    proof (cases "bytes_Compare key k = 0")
      case eq: True
      from "1.prems" True k eq have False
        by (subst (asm) Get_loop.simps)
           (auto simp: bnd_def lift_def ret_def split: sum.splits)
      then show ?thesis ..
    next
      case ne: False
      from "1.prems" True k ne have g: "Get_loop nd key (i + 1) s = Inr ((v, False), s')"
        by (subst (asm) Get_loop.simps) (auto simp: bnd_def lift_def split: sum.splits)
      from "1.IH" [OF True ne g] have "keyPosition_loop nd key (i + 1) = Inr (- 1)" .
      with True k ne show ?thesis by (subst keyPosition_loop.simps) simp
    qed
  qed
qed

text \<open>
  C7: \<open>Delete\<close> of a key the tree does not store. "Does not store" is read off the
  state: the lookup \<open>Get(k)\<close> returns with found = false. Then \<open>Delete(k)\<close> returns
  (nil, false) and the state after it is the state before it: size, root, every node and
  every stored entry.
\<close>

theorem Delete_absent_unchanged:
  assumes "Get fuel key s = Inr ((v, False), s')"
  shows "Delete fuel key s = Inr (([], False), s)"
proof (cases "root s")
  case None
  then show ?thesis by (simp add: Delete_def bnd_def gets_def ret_def)
next
  case (Some r)
  from assms Some obtain lf s1 where lf: "findLeafByKey fuel key s = Inr (lf, s1)"
    and rest: "bnd (getNode lf) (\<lambda>nd. Get_loop nd key 0) s1 = Inr ((v, False), s')"
    by (auto simp: Get_def bnd_def gets_def split: sum.splits)
  from readOnly_Inr [OF readOnly_findLeafByKey lf] have s1: "s1 = s" .
  from rest obtain nd s2 where nd: "getNode lf s1 = Inr (nd, s2)"
    and gl: "Get_loop nd key 0 s2 = Inr ((v, False), s')"
    by (auto dest: bnd_Inr)
  from readOnly_Inr [OF readOnly_getNode nd] s1 have s2: "s2 = s" by simp
  from Get_loop_absent [OF gl] have kp: "keyPosition_loop nd key 0 = Inr (- 1)" .
  from nd s1 s2 kp have "keyPosition lf key s = Inr (- 1, s)"
    by (simp add: keyPosition_def bnd_def lift_def)
  then have "deleteAtLeafAndRebalance fuel lf key s = Inr (([], False), s)"
    by (simp add: deleteAtLeafAndRebalance_def bnd_def ret_def)
  with lf s1 Some show ?thesis
    by (simp add: Delete_def bnd_def gets_def ret_def)
qed

theorem Delete_absent_unchanged_witness:
  "Get 9 [4] tree123 = Inr (([], False), tree123)
   \<and> Delete 9 [4] tree123 = Inr (([], False), tree123)"
proof -
  have h: "Get 9 [4] tree123 = Inr (([], False), tree123)"
    by code_simp
  from Delete_absent_unchanged [OF h] h show ?thesis by simp
qed

section \<open>Borrowing from the right sibling\<close>

lemma getNode_eq: "r < length (nodes s) \<Longrightarrow> getNode r s = Inr (nodes s ! r, s)"
  by (simp add: getNode_def)

lemma setNode_eq:
  "r < length (nodes s) \<Longrightarrow> setNode r nd s = Inr ((), s\<lparr>nodes := (nodes s)[r := nd]\<rparr>)"
  by (simp add: setNode_def)

lemma idx_eq: "0 \<le> i \<Longrightarrow> i < int (length xs) \<Longrightarrow> idx xs i = Inr (xs ! nat i)"
  by (simp add: idx_def)

lemma upd_eq: "0 \<le> i \<Longrightarrow> i < int (length xs) \<Longrightarrow> upd xs i v = Inr (xs[nat i := v])"
  by (simp add: upd_def)

lemma shiftLeft_spec:
  "0 \<le> i \<Longrightarrow> hi < int (length xs) \<Longrightarrow>
   \<exists>ys. shiftLeft xs i hi = Inr ys \<and> length ys = length xs \<and>
        (\<forall>j < length xs. ys ! j = (if i \<le> int j \<and> int j < hi then xs ! (j + 1) else xs ! j))"
proof (induction xs i hi rule: shiftLeft.induct)
  case (1 xs i hi)
  show ?case
  proof (cases "i < hi")
    case False
    then show ?thesis by (subst shiftLeft.simps) auto
  next
    case True
    let ?xs' = "xs[nat i := xs ! nat (i + 1)]"
    from True "1.prems" have a: "idx xs (i + 1) = Inr (xs ! nat (i + 1))"
      and b: "upd xs i (xs ! nat (i + 1)) = Inr ?xs'"
      by (simp_all add: idx_def upd_def)
    from "1.prems" have p: "0 \<le> i + 1" "hi < int (length ?xs')" by simp_all
    from "1.IH" [OF True a b p] obtain ys where ys: "shiftLeft ?xs' (i + 1) hi = Inr ys"
      "length ys = length xs"
      "\<forall>j < length xs. ys ! j = (if i + 1 \<le> int j \<and> int j < hi then ?xs' ! (j + 1) else ?xs' ! j)"
      by auto
    have "\<forall>j < length xs. ys ! j = (if i \<le> int j \<and> int j < hi then xs ! (j + 1) else xs ! j)"
    proof (intro allI impI)
      fix j assume j: "j < length xs"
      show "ys ! j = (if i \<le> int j \<and> int j < hi then xs ! (j + 1) else xs ! j)"
      proof (cases "int j = i")
        case True
        then have ij: "nat i = j" and ij1: "nat (i + 1) = j + 1" by simp_all
        from ys(3) j True have "ys ! j = ?xs' ! j" by simp
        also from ij j have "\<dots> = xs ! nat (i + 1)" by simp
        finally show ?thesis using True \<open>i < hi\<close> ij1 by simp
      next
        case False
        with ys(3) j "1.prems" \<open>i < hi\<close> show ?thesis
          by (auto simp: nth_list_update)
      qed
    qed
    with ys(1,2) True a b show ?thesis
      by (subst shiftLeft.simps) simp
  qed
qed

lemma append_node_leaf:
  assumes "n < length (nodes s)" and "leaf (nodes s ! n)"
    and "0 \<le> keyNums (nodes s ! n)"
    and "keyNums (nodes s ! n) < int (length (keys (nodes s ! n)))"
    and "keyNums (nodes s ! n) < int (length (pointers (nodes s ! n)))"
  shows "append_node n k p s =
         Inr ((), s\<lparr>nodes := (nodes s)[n := (nodes s ! n)
                  \<lparr>keys := (keys (nodes s ! n))[nat (keyNums (nodes s ! n)) := k],
                   pointers := (pointers (nodes s ! n))[nat (keyNums (nodes s ! n)) := p],
                   keyNums := keyNums (nodes s ! n) + 1\<rparr>]\<rparr>)"
  using assms
  by (simp add: append_node_def bnd_def getNode_eq setNode_eq lift_def ret_def upd_eq)

lemma deleteAt_first:
  assumes "rs < length (nodes s)"
    and "1 \<le> keyNums (nodes s ! rs)"
    and "keyNums (nodes s ! rs) \<le> int (length (keys (nodes s ! rs)))"
    and "(if leaf (nodes s ! rs) then keyNums (nodes s ! rs) else keyNums (nodes s ! rs) + 1)
         \<le> int (length (pointers (nodes s ! rs)))"
  shows "\<exists>ks ps. deleteAt rs 0 0 s =
           Inr ((), s\<lparr>nodes := (nodes s)[rs := (nodes s ! rs)
                   \<lparr>keys := ks, pointers := ps, keyNums := keyNums (nodes s ! rs) - 1\<rparr>]\<rparr>)
         \<and> length ks = length (keys (nodes s ! rs))
         \<and> length ps = length (pointers (nodes s ! rs))
         \<and> (\<forall>j < nat (keyNums (nodes s ! rs) - 1).
               ks ! j = keys (nodes s ! rs) ! (j + 1) \<and> ps ! j = pointers (nodes s ! rs) ! (j + 1))"
proof -
  let ?nd = "nodes s ! rs"
  let ?kn = "keyNums ?nd"
  from assms have kb: "?kn - 1 < int (length (keys ?nd))"
    and pb: "?kn - 1 < int (length (pointers ?nd))"
    by (auto split: if_splits)
  from shiftLeft_spec [OF _ kb, of 0] obtain ks where ks: "shiftLeft (keys ?nd) 0 (?kn - 1) = Inr ks"
    "length ks = length (keys ?nd)"
    "\<forall>j < length (keys ?nd). ks ! j = (if 0 \<le> int j \<and> int j < ?kn - 1 then keys ?nd ! (j + 1) else keys ?nd ! j)"
    by auto
  from shiftLeft_spec [OF _ pb, of 0] obtain ps where ps: "shiftLeft (pointers ?nd) 0 (?kn - 1) = Inr ps"
    "length ps = length (pointers ?nd)"
    "\<forall>j < length (pointers ?nd). ps ! j = (if 0 \<le> int j \<and> int j < ?kn - 1 then pointers ?nd ! (j + 1) else pointers ?nd ! j)"
    by auto
  let ?e = "(if \<not> leaf ?nd then ?kn + 1 else ?kn) - 1"
  from assms ps(2) have e: "0 \<le> ?e" "?e < int (length ps)" by (auto split: if_splits)
  let ?ks' = "ks[nat (?kn - 1) := []]" and ?ps' = "ps[nat ?e := None]"
  from assms ks ps e have "deleteAt rs 0 0 s =
      Inr ((), s\<lparr>nodes := (nodes s)[rs := ?nd\<lparr>keys := ?ks', pointers := ?ps', keyNums := ?kn - 1\<rparr>]\<rparr>)"
    by (simp add: deleteAt_def bnd_def getNode_eq setNode_eq lift_def upd_eq)
  moreover have "\<forall>j < nat (?kn - 1). ?ks' ! j = keys ?nd ! (j + 1) \<and> ?ps' ! j = pointers ?nd ! (j + 1)"
  proof (intro allI impI)
    fix j assume j: "j < nat (?kn - 1)"
    with kb pb have "j < length (keys ?nd)" "j < length (pointers ?nd)" by simp_all
    with ks(3) ps(3) j have "ks ! j = keys ?nd ! (j + 1)" "ps ! j = pointers ?nd ! (j + 1)"
      by auto
    moreover from j have "nat (?kn - 1) \<noteq> j" "nat ?e \<noteq> j" by (auto split: if_splits)
    ultimately show "?ks' ! j = keys ?nd ! (j + 1) \<and> ?ps' ! j = pointers ?nd ! (j + 1)"
      by simp
  qed
  ultimately show ?thesis using ks(2) ps(2) by (intro exI [of _ ?ks'] exI [of _ ?ps']) simp
qed

lemma child_Inr:
  assumes "child par i s = Inr (c, s1)"
  shows "par < length (nodes s) \<and> s1 = s
         \<and> (\<exists>p. idx (pointers (nodes s ! par)) i = Inr p \<and> convertToNode p s = Inr (c, s))"
proof -
  from assms obtain nd s2 where a: "getNode par s = Inr (nd, s2)"
    and b: "bnd (lift (idx (pointers nd) i)) convertToNode s2 = Inr (c, s1)"
    unfolding child_def by (auto dest: bnd_Inr)
  from a have par: "par < length (nodes s)" and nd: "nd = nodes s ! par" and s2: "s2 = s"
    by (auto simp: getNode_def split: if_splits)
  from b obtain p s3 where c: "lift (idx (pointers nd) i) s2 = Inr (p, s3)"
    and d: "convertToNode p s3 = Inr (c, s1)"
    by (auto dest: bnd_Inr)
  from c have p: "idx (pointers nd) i = Inr p" and s3: "s3 = s2"
    by (auto simp: lift_def split: sum.splits)
  from readOnly_Inr [OF readOnly_convertToNode d] have "s1 = s3" .
  with par nd s2 s3 p d show ?thesis by auto
qed

lemma take_shifted:
  assumes "\<forall>j < m. ys ! j = xs ! (j + 1)" and "m \<le> length ys" and "m + 1 \<le> length xs"
  shows "take m ys = take m (drop 1 xs)"
proof (rule nth_equalityI)
  from assms show "length (take m ys) = length (take m (drop 1 xs))" by simp
next
  fix i assume "i < length (take m ys)"
  with assms show "take m ys ! i = take m (drop 1 xs) ! i" by simp
qed

lemma leftSibling_cannot_lend:
  assumes "pp = 0 \<or> (case child par (pp - 1) s of
                       Inl e \<Rightarrow> False
                     | Inr (ls, s1) \<Rightarrow> ls < length (nodes s)
                                     \<and> keyNums (nodes s ! ls) \<le> minKeyNum s)"
    and "0 \<le> pp" and "par < length (nodes s)"
  shows "\<exists>leftSibling.
          (if pp - 1 \<ge> 0
           then bnd (getNode par) (\<lambda>pn.
                bnd (lift (idx (pointers pn) (pp - 1))) (\<lambda>p.
                bnd (convertToNode p) (\<lambda>ls. ret (Some ls))))
           else ret None) s = Inr (leftSibling, s)
        \<and> (case leftSibling of
              None \<Rightarrow> ret False
            | Some ls \<Rightarrow> bnd (getNode ls) (\<lambda>lsn. ret (keyNums lsn > minKeyNum s))) s
            = Inr (False, s)"
proof (cases "pp = 0")
  case True
  then show ?thesis by (simp add: ret_def)
next
  case False
  with assms obtain ls s1 where c: "child par (pp - 1) s = Inr (ls, s1)"
    and ls: "ls < length (nodes s)" "keyNums (nodes s ! ls) \<le> minKeyNum s"
    by (auto split: sum.splits)
  from child_Inr [OF c] obtain p where p: "idx (pointers (nodes s ! par)) (pp - 1) = Inr p"
    "convertToNode p s = Inr (ls, s)" by auto
  from False assms p ls show ?thesis
    by (intro exI [of _ "Some ls"]) (simp add: bnd_def getNode_eq lift_def ret_def)
qed

lemma leaf_borrow_right:
  assumes pre: "rightLender s n par pp rs" and lf: "leaf (nodes s ! n)"
  shows "\<exists>s'. rebalancedFromLeafNode fuel n s = Inr ((), s')
              \<and> borrowedFirstEntry s s' n par pp rs \<and> firstEntryRemoved s s' rs"
proof -
  let ?nd = "nodes s ! n" and ?pn = "nodes s ! par" and ?rsn = "nodes s ! rs"
  let ?kn = "keyNums ?nd"
  from pre have b: "n < length (nodes s)" "par < length (nodes s)" "rs < length (nodes s)"
    and d: "n \<noteq> par" "n \<noteq> rs" "rs \<noteq> par"
    and par: "parent ?nd = Some par"
    and pp: "getPointerPositionOfNode par n s = Inr (pp, s)" "0 \<le> pp"
    and left: "pp = 0 \<or> (case child par (pp - 1) s of
                       Inl e \<Rightarrow> False
                     | Inr (ls, s1) \<Rightarrow> ls < length (nodes s)
                                     \<and> keyNums (nodes s ! ls) \<le> minKeyNum s)"
    and ppk: "pp < keyNums ?pn" "keyNums ?pn \<le> int (length (keys ?pn))"
    and rc: "child par (pp + 1) s = Inr (rs, s)"
    and mk: "0 \<le> minKeyNum s" "minKeyNum s < keyNums ?rsn"
    and rl: "leaf ?rsn = leaf ?nd"
    and rb: "keyNums ?rsn \<le> int (length (keys ?rsn))"
      "(if leaf ?rsn then keyNums ?rsn else keyNums ?rsn + 1) \<le> int (length (pointers ?rsn))"
    and nb: "0 \<le> ?kn" "?kn < int (length (keys ?nd))"
      "(if leaf ?nd then ?kn else ?kn + 1) < int (length (pointers ?nd))"
    unfolding rightLender_def by (simp_all split: if_splits)
  from leftSibling_cannot_lend [OF left pp(2) b(2)] obtain leftSibling where
    l1: "(if pp - 1 \<ge> 0
           then bnd (getNode par) (\<lambda>pn.
                bnd (lift (idx (pointers pn) (pp - 1))) (\<lambda>p.
                bnd (convertToNode p) (\<lambda>ls. ret (Some ls))))
           else ret None) s = Inr (leftSibling, s)"
    and l2: "(case leftSibling of
              None \<Rightarrow> ret False
            | Some ls \<Rightarrow> bnd (getNode ls) (\<lambda>lsn. ret (keyNums lsn > minKeyNum s))) s
            = Inr (False, s)"
    by blast
  from child_Inr [OF rc] obtain rp where rp: "idx (pointers ?pn) (pp + 1) = Inr rp"
    "convertToNode rp s = Inr (rs, s)" by auto
  let ?nd' = "?nd\<lparr>keys := (keys ?nd)[nat ?kn := keys ?rsn ! 0],
                  pointers := (pointers ?nd)[nat ?kn := pointers ?rsn ! 0],
                  keyNums := ?kn + 1\<rparr>"
  let ?s1 = "s\<lparr>nodes := (nodes s)[n := ?nd']\<rparr>"
  from mk rb have "1 \<le> int (length (keys ?rsn))" "1 \<le> int (length (pointers ?rsn))"
    by (auto split: if_splits)
  then have lpos: "keys ?rsn \<noteq> []" "pointers ?rsn \<noteq> []"
    by auto
  then have r0: "idx (keys ?rsn) 0 = Inr (keys ?rsn ! 0)"
    "idx (pointers ?rsn) 0 = Inr (pointers ?rsn ! 0)"
    by (simp_all add: idx_def)
  from b lf nb have ap: "append_node n (keys ?rsn ! 0) (pointers ?rsn ! 0) s = Inr ((), ?s1)"
    by (simp add: append_node_leaf)
  from b d mk rb have "\<exists>ks ps. deleteAt rs 0 0 ?s1 =
           Inr ((), ?s1\<lparr>nodes := (nodes ?s1)[rs := (nodes ?s1 ! rs)
                   \<lparr>keys := ks, pointers := ps, keyNums := keyNums (nodes ?s1 ! rs) - 1\<rparr>]\<rparr>)
         \<and> length ks = length (keys (nodes ?s1 ! rs))
         \<and> length ps = length (pointers (nodes ?s1 ! rs))
         \<and> (\<forall>j < nat (keyNums (nodes ?s1 ! rs) - 1).
               ks ! j = keys (nodes ?s1 ! rs) ! (j + 1) \<and> ps ! j = pointers (nodes ?s1 ! rs) ! (j + 1))"
    by (intro deleteAt_first) (simp_all split: if_splits)
  then obtain ks ps where del: "deleteAt rs 0 0 ?s1 =
        Inr ((), s\<lparr>nodes := (nodes s)[n := ?nd',
               rs := ?rsn\<lparr>keys := ks, pointers := ps, keyNums := keyNums ?rsn - 1\<rparr>]\<rparr>)"
    and len: "length ks = length (keys ?rsn)" "length ps = length (pointers ?rsn)"
    and sh: "\<forall>j < nat (keyNums ?rsn - 1). ks ! j = keys ?rsn ! (j + 1) \<and> ps ! j = pointers ?rsn ! (j + 1)"
    using d by auto
  let ?rsn' = "?rsn\<lparr>keys := ks, pointers := ps, keyNums := keyNums ?rsn - 1\<rparr>"
  let ?s2 = "s\<lparr>nodes := (nodes s)[n := ?nd', rs := ?rsn']\<rparr>"
  let ?s3 = "s\<lparr>nodes := (nodes s)[n := ?nd', rs := ?rsn',
                 par := ?pn\<lparr>keys := (keys ?pn)[nat pp := ks ! 0]\<rparr>]\<rparr>"
  from lpos len have "ks \<noteq> []" by auto
  then have k0: "idx ks 0 = Inr (ks ! 0)" by (simp add: idx_def)
  from pp ppk have u: "upd (keys ?pn) pp (ks ! 0) = Inr ((keys ?pn)[nat pp := ks ! 0])"
    by (simp add: upd_def)
  have run: "rebalancedFromLeafNode fuel n s = Inr ((), ?s3)"
    unfolding rebalancedFromLeafNode_def
    using b d par pp l1 l2 rp ppk mk r0 ap del k0 u
    by (simp add: bnd_def getNode_eq setNode_eq deref_def gets_def ret_def lift_def Let_def)
  from b d lf have post1: "borrowedFirstEntry s ?s3 n par pp rs"
    using nb ppk pp by (simp add: borrowedFirstEntry_def)
  from mk rb have m: "nat (keyNums ?rsn - 1) + 1 \<le> length (keys ?rsn)"
    "nat (keyNums ?rsn - 1) + 1 \<le> length (pointers ?rsn)"
    by (auto split: if_splits)
  have t1: "take (nat (keyNums ?rsn - 1)) ks
        = take (nat (keyNums ?rsn - 1)) (drop 1 (keys ?rsn))"
    using sh len(1) m(1) by (intro take_shifted) simp_all
  have t2: "take (nat (keyNums ?rsn - 1)) ps
        = take (nat (keyNums ?rsn - 1)) (drop 1 (pointers ?rsn))"
    using sh len(2) m(2) by (intro take_shifted) simp_all
  from b d t1 t2 have post2: "firstEntryRemoved s ?s3 rs"
    by (simp add: firstEntryRemoved_def)
  from run post1 post2 show ?thesis by blast
qed

lemma convertToNode_nodes:
  "convertToNode p s = Inr (c, s) \<Longrightarrow>
   convertToNode p (s\<lparr>nodes := ns\<rparr>) = Inr (c, s\<lparr>nodes := ns\<rparr>)"
  by (cases p)
     (auto simp: convertToNode_def getCell_def bnd_def panic_def ret_def
           split: if_splits pointer.splits sum.splits)

lemma append_node_internal:
  assumes "n < length (nodes s)" and "\<not> leaf (nodes s ! n)"
    and "0 \<le> keyNums (nodes s ! n)"
    and "keyNums (nodes s ! n) < int (length (keys (nodes s ! n)))"
    and "keyNums (nodes s ! n) + 1 < int (length (pointers (nodes s ! n)))"
    and "pointers (nodes s ! n) ! nat (keyNums (nodes s ! n)) \<noteq> None"
    and "convertToNode p s = Inr (c, s)" and "c < length (nodes s)" and "c \<noteq> n"
  shows "append_node n k p s =
         Inr ((), s\<lparr>nodes := (nodes s)[n := (nodes s ! n)
                  \<lparr>keys := (keys (nodes s ! n))[nat (keyNums (nodes s ! n)) := k],
                   pointers := (pointers (nodes s ! n))[nat (keyNums (nodes s ! n)) + 1 := p],
                   keyNums := keyNums (nodes s ! n) + 1\<rparr>,
                  c := (nodes s ! c)\<lparr>parent := Some n\<rparr>]\<rparr>)"
proof -
  from assms have i: "idx (pointers (nodes s ! n)) (keyNums (nodes s ! n))
      = Inr (pointers (nodes s ! n) ! nat (keyNums (nodes s ! n)))"
    by (simp add: idx_def)
  from assms have n1: "nat (keyNums (nodes s ! n) + 1) = nat (keyNums (nodes s ! n)) + 1"
    by simp
  from assms i n1 show ?thesis
    by (simp add: append_node_def bnd_def getNode_eq setNode_eq lift_def ret_def upd_eq
          setParent_def convertToNode_nodes)
qed

lemma internal_borrow_right:
  assumes pre: "rightLender s n par pp rs" and nl: "\<not> leaf (nodes s ! n)"
    and il: "internalLender s n par rs"
  shows "\<exists>s'. rebalanceParentNode fuel0 (Suc fuel) n s = Inr ((), s')
              \<and> rotatedThroughParent s s' n par pp rs \<and> firstEntryRemoved s s' rs"
proof -
  let ?nd = "nodes s ! n" and ?pn = "nodes s ! par" and ?rsn = "nodes s ! rs"
  let ?kn = "keyNums ?nd"
  from pre nl have b: "n < length (nodes s)" "par < length (nodes s)" "rs < length (nodes s)"
    and d: "n \<noteq> par" "n \<noteq> rs" "rs \<noteq> par"
    and par: "parent ?nd = Some par"
    and pp: "getPointerPositionOfNode par n s = Inr (pp, s)" "0 \<le> pp"
    and left: "pp = 0 \<or> (case child par (pp - 1) s of
                       Inl e \<Rightarrow> False
                     | Inr (ls, s1) \<Rightarrow> ls < length (nodes s)
                                     \<and> keyNums (nodes s ! ls) \<le> minKeyNum s)"
    and ppk: "pp < keyNums ?pn" "keyNums ?pn \<le> int (length (keys ?pn))"
    and rc: "child par (pp + 1) s = Inr (rs, s)"
    and mk: "0 \<le> minKeyNum s" "minKeyNum s < keyNums ?rsn"
    and rl: "\<not> leaf ?rsn"
    and rb: "keyNums ?rsn \<le> int (length (keys ?rsn))"
      "keyNums ?rsn + 1 \<le> int (length (pointers ?rsn))"
    and nb: "0 \<le> ?kn" "?kn < int (length (keys ?nd))"
      "?kn + 1 < int (length (pointers ?nd))"
    unfolding rightLender_def by (simp_all split: if_splits)
  from il obtain c s0 where cv0: "convertToNode (pointers ?rsn ! 0) s = Inr (c, s0)"
    and c: "c < length (nodes s)" "c \<noteq> n" "c \<noteq> par" "c \<noteq> rs"
    and uf: "?kn < minKeyNum s" and lastp: "pointers ?nd ! nat ?kn \<noteq> None"
    unfolding internalLender_def by (auto split: sum.splits)
  from readOnly_Inr [OF readOnly_convertToNode cv0] cv0
  have cv: "convertToNode (pointers ?rsn ! 0) s = Inr (c, s)" by simp
  from leftSibling_cannot_lend [OF left pp(2) b(2)] obtain leftSibling where
    l1: "(if pp - 1 \<ge> 0
           then bnd (getNode par) (\<lambda>pn.
                bnd (lift (idx (pointers pn) (pp - 1))) (\<lambda>p.
                bnd (convertToNode p) (\<lambda>ls. ret (Some ls))))
           else ret None) s = Inr (leftSibling, s)"
    and l2: "(case leftSibling of
              None \<Rightarrow> ret False
            | Some ls \<Rightarrow> bnd (getNode ls) (\<lambda>lsn. ret (keyNums lsn > minKeyNum s))) s
            = Inr (False, s)"
    by blast
  from child_Inr [OF rc] obtain rp where rp: "idx (pointers ?pn) (pp + 1) = Inr rp"
    "convertToNode rp s = Inr (rs, s)" by auto
  from mk rb have "1 \<le> int (length (keys ?rsn))" "1 \<le> int (length (pointers ?rsn))"
    by auto
  then have lpos: "keys ?rsn \<noteq> []" "pointers ?rsn \<noteq> []"
    by auto
  then have r0: "idx (keys ?rsn) 0 = Inr (keys ?rsn ! 0)"
    "idx (pointers ?rsn) 0 = Inr (pointers ?rsn ! 0)"
    by (simp_all add: idx_def)
  from pp ppk have sk: "idx (keys ?pn) pp = Inr (keys ?pn ! nat pp)"
    by (simp add: idx_def)
  let ?nd' = "?nd\<lparr>keys := (keys ?nd)[nat ?kn := keys ?pn ! nat pp],
                  pointers := (pointers ?nd)[nat ?kn + 1 := pointers ?rsn ! 0],
                  keyNums := ?kn + 1\<rparr>"
  let ?cn' = "(nodes s ! c)\<lparr>parent := Some n\<rparr>"
  let ?pn' = "?pn\<lparr>keys := (keys ?pn)[nat pp := keys ?rsn ! 0]\<rparr>"
  let ?s1 = "s\<lparr>nodes := (nodes s)[n := ?nd', c := ?cn']\<rparr>"
  let ?s2 = "s\<lparr>nodes := (nodes s)[n := ?nd', c := ?cn', par := ?pn']\<rparr>"
  from b nl nb lastp cv c have ap:
    "append_node n (keys ?pn ! nat pp) (pointers ?rsn ! 0) s = Inr ((), ?s1)"
    by (simp add: append_node_internal)
  from pp ppk have u: "upd (keys ?pn) pp (keys ?rsn ! 0) = Inr ((keys ?pn)[nat pp := keys ?rsn ! 0])"
    by (simp add: upd_def)
  from b d c mk rb rl have "\<exists>ks ps. deleteAt rs 0 0 ?s2 =
           Inr ((), ?s2\<lparr>nodes := (nodes ?s2)[rs := (nodes ?s2 ! rs)
                   \<lparr>keys := ks, pointers := ps, keyNums := keyNums (nodes ?s2 ! rs) - 1\<rparr>]\<rparr>)
         \<and> length ks = length (keys (nodes ?s2 ! rs))
         \<and> length ps = length (pointers (nodes ?s2 ! rs))
         \<and> (\<forall>j < nat (keyNums (nodes ?s2 ! rs) - 1).
               ks ! j = keys (nodes ?s2 ! rs) ! (j + 1) \<and> ps ! j = pointers (nodes ?s2 ! rs) ! (j + 1))"
    by (intro deleteAt_first) (simp_all split: if_splits)
  then obtain ks ps where del: "deleteAt rs 0 0 ?s2 =
        Inr ((), s\<lparr>nodes := (nodes s)[n := ?nd', c := ?cn', par := ?pn',
               rs := ?rsn\<lparr>keys := ks, pointers := ps, keyNums := keyNums ?rsn - 1\<rparr>]\<rparr>)"
    and len: "length ks = length (keys ?rsn)" "length ps = length (pointers ?rsn)"
    and sh: "\<forall>j < nat (keyNums ?rsn - 1). ks ! j = keys ?rsn ! (j + 1) \<and> ps ! j = pointers ?rsn ! (j + 1)"
    using d c by auto
  let ?s3 = "s\<lparr>nodes := (nodes s)[n := ?nd', c := ?cn', par := ?pn',
               rs := ?rsn\<lparr>keys := ks, pointers := ps, keyNums := keyNums ?rsn - 1\<rparr>]\<rparr>"
  have run: "rebalanceParentNode fuel0 (Suc fuel) n s = Inr ((), ?s3)"
    using b d c par uf pp l1 l2 rp ppk mk r0 sk ap del u
    by (simp add: bnd_def getNode_eq setNode_eq deref_def gets_def ret_def lift_def Let_def)
  from b d c cv have post1: "rotatedThroughParent s ?s3 n par pp rs"
    using nb ppk pp by (simp add: rotatedThroughParent_def)
  from mk rb have m: "nat (keyNums ?rsn - 1) + 1 \<le> length (keys ?rsn)"
    "nat (keyNums ?rsn - 1) + 1 \<le> length (pointers ?rsn)"
    by auto
  have t1: "take (nat (keyNums ?rsn - 1)) ks
        = take (nat (keyNums ?rsn - 1)) (drop 1 (keys ?rsn))"
    using sh len(1) m(1) by (intro take_shifted) simp_all
  have t2: "take (nat (keyNums ?rsn - 1)) ps
        = take (nat (keyNums ?rsn - 1)) (drop 1 (pointers ?rsn))"
    using sh len(2) m(2) by (intro take_shifted) simp_all
  from b d c t1 t2 have post2: "firstEntryRemoved s ?s3 rs"
    by (simp add: firstEntryRemoved_def)
  from run post1 post2 show ?thesis by blast
qed

text \<open>
  C8, as amended. When a node n cannot borrow from a left sibling and its right sibling
  has more than \<open>minKeyNum\<close> keys: for a leaf n, \<open>rebalancedFromLeafNode\<close> returns, the
  right sibling's first key and first pointer are at the end of n, the sibling's other
  entries moved one slot left, and the separator in the parent is the sibling's new
  first key. For an internal node n below \<open>minKeyNum\<close>, \<open>rebalanceParentNode\<close> returns,
  the end of n holds the parent's old separator and the sibling's first child (whose
  parent is now n), the sibling's keys moved one slot left, and the separator in the
  parent is the sibling's former first key.
\<close>

theorem borrow_from_right_sibling:
  assumes "rightLender s n par pp rs"
  shows "(leaf (nodes s ! n) \<longrightarrow>
            (\<exists>s'. rebalancedFromLeafNode fuel n s = Inr ((), s')
                  \<and> borrowedFirstEntry s s' n par pp rs \<and> firstEntryRemoved s s' rs))
         \<and> (\<not> leaf (nodes s ! n) \<and> internalLender s n par rs \<longrightarrow>
            (\<exists>s'. rebalanceParentNode fuel (Suc fuel') n s = Inr ((), s')
                  \<and> rotatedThroughParent s s' n par pp rs \<and> firstEntryRemoved s s' rs))"
  using leaf_borrow_right [OF assms] internal_borrow_right [OF assms] by blast

theorem borrow_from_right_sibling_witness:
  "rightLender leafUnderflow 0 2 0 1 \<and> leaf (nodes leafUnderflow ! 0)
   \<and> (\<exists>s'. rebalancedFromLeafNode 9 0 leafUnderflow = Inr ((), s')
            \<and> borrowedFirstEntry leafUnderflow s' 0 2 0 1
            \<and> firstEntryRemoved leafUnderflow s' 1)
   \<and> rightLender internalUnderflow 2 6 0 5 \<and> \<not> leaf (nodes internalUnderflow ! 2)
   \<and> internalLender internalUnderflow 2 6 5
   \<and> (\<exists>s'. rebalanceParentNode 9 (Suc 8) 2 internalUnderflow = Inr ((), s')
            \<and> rotatedThroughParent internalUnderflow s' 2 6 0 5
            \<and> firstEntryRemoved internalUnderflow s' 5)"
proof -
  have p1: "rightLender leafUnderflow 0 2 0 1" by code_simp
  have l1: "leaf (nodes leafUnderflow ! 0)" by code_simp
  have p2: "rightLender internalUnderflow 2 6 0 5" by code_simp
  have l2: "\<not> leaf (nodes internalUnderflow ! 2)" by code_simp
  have i2: "internalLender internalUnderflow 2 6 5" by code_simp
  from borrow_from_right_sibling [OF p1, of 9] l1
  have a: "\<exists>s'. rebalancedFromLeafNode 9 0 leafUnderflow = Inr ((), s')
            \<and> borrowedFirstEntry leafUnderflow s' 0 2 0 1
            \<and> firstEntryRemoved leafUnderflow s' 1"
    by blast
  from borrow_from_right_sibling [OF p2, of 9 8] l2 i2
  have b: "\<exists>s'. rebalanceParentNode 9 (Suc 8) 2 internalUnderflow = Inr ((), s')
            \<and> rotatedThroughParent internalUnderflow s' 2 6 0 5
            \<and> firstEntryRemoved internalUnderflow s' 5"
    by blast
  from p1 l1 a p2 l2 i2 b show ?thesis by blast
qed

text \<open>
  The property as stated fails on an internal node: in \<open>internalUnderflow\<close> node 2 is
  below \<open>minKeyNum\<close>, has no left sibling, and its right sibling 5 has two keys, 4 and 5,
  under the separator 3. After \<open>rebalanceParentNode\<close> node 2 ends with the key 3, not 4,
  and the separator is 4, not the sibling's new first key 5.
\<close>

theorem borrow_from_right_sibling_counterexample:
  "rightLender internalUnderflow 2 6 0 5 \<and> internalLender internalUnderflow 2 6 5
   \<and> rebalanceParentNode 9 9 2 internalUnderflow = Inr ((), internalBorrowed)
   \<and> \<not> borrowedFirstEntry internalUnderflow internalBorrowed 2 6 0 5
   \<and> keys (nodes internalUnderflow ! 5) ! 0 = [4]
   \<and> keys (nodes internalBorrowed ! 2) ! 0 = [3]
   \<and> keys (nodes internalBorrowed ! 6) ! 0 = [4]
   \<and> keys (nodes internalBorrowed ! 5) ! 0 = [5]"
  by code_simp

section \<open>Where the code departs from its contract\<close>

text \<open>
  C1: after a sequence of \<open>Put\<close>s on a new tree, \<open>Get(k)\<close> returns the last value put
  for k. The code does not: \<open>init\<close> copies the first key into a nil slice, so the first
  key of a tree is recorded as the empty key. On a new tree of the default order,
  \<open>Put("a", "1")\<close> followed by \<open>Get("a")\<close> returns (nil, false).
\<close>

theorem first_put_key_not_found:
  "run (thn (Put 9 [97] [49]) (Get 9 [97])) (NewBPlusTree []) = Inr ([], False)"
  by code_simp

text \<open>
  C2: \<open>ForEach\<close> yields exactly the stored keys, ascending, each with its value. The code
  does not: after \<open>Put("a", "1")\<close> on a new tree it yields the empty key, not "a"; and
  with order 3, after \<open>Put("a", "1")\<close> and \<open>Put("b", "2")\<close>, the first leaf's last
  pointer slot holds the value of "b" where the iterator expects the next leaf, and
  \<open>ForEach\<close> panics in \<open>convertToNode\<close>.
\<close>

theorem ForEach_after_puts:
  "run (thn (Put 9 [97] [49]) (ForEach 9)) (NewBPlusTree []) = Inr [([], [49])]
   \<and> run (thn (Put 9 [97] [49]) (thn (Put 9 [98] [50]) (ForEach 9))) (NewBPlusTree [3])
       = Inl TypeAssertion"
  by code_simp

text \<open>
  C3: after every completed \<open>Put\<close> or \<open>Delete\<close> the leaf chain, followed through each
  leaf's trailing link, ends at nil. With order 3, after \<open>Put("a", "1")\<close> and
  \<open>Put("b", "2")\<close> the trailing link of the leftmost (and only) leaf is not nil and not a
  leaf: it is the pointer object holding the value "2".
\<close>

theorem leaf_link_holds_a_value:
  "run (thn (Put 9 [97] [49]) (thn (Put 9 [98] [50])
          (bnd (gets mostLeftNode) (\<lambda>m.
           bnd (deref m) (\<lambda>n.
           bnd (pointerToNextLeafNode n) getCell)))))
     (NewBPlusTree [3])
   = Inr (PValue [50])"
  by code_simp

text \<open>
  C4: after every completed \<open>Put\<close> or \<open>Delete\<close> each separator equals the minimum key of
  the subtree right of it. With order 3, after \<open>Put\<close> of 1, 2, 3, 4, 5, 6 and
  \<open>Delete(3)\<close>, the root's second child has one key, the separator 5, and the leftmost
  key of the subtree right of that separator (what \<open>findLeftmostKey\<close> returns) is 4.
\<close>

theorem separator_is_not_subtree_minimum:
  "run (thn (Puts 9 [[1], [2], [3], [4], [5], [6]]) (thn (Delete 9 [3])
          (bnd (gets root) (\<lambda>r.
           bnd (deref r) (\<lambda>rt.
           bnd (child rt 1) (\<lambda>c.
           bnd (getNode c) (\<lambda>cn.
           bnd (child c 1) (\<lambda>g.
           bnd (findLeftmostKey 9 g) (\<lambda>lk.
           ret (keyNums cn, idx (keys cn) 0, lk))))))))))
     (NewBPlusTree [3])
   = Inr (1, Inr [5], [4])"
  by code_simp

text \<open>
  C5: \<open>Put\<close> on a stored key returns the previous value and true and leaves \<open>Size\<close>
  unchanged. On a new tree \<open>Put("1", "1")\<close> followed by \<open>Put("1", "2")\<close> returns
  (nil, false) and \<open>Size\<close> is 2. The second run is a tree of order 5 in which
  \<open>Get(6)\<close> finds the value 6 and \<open>Size\<close> is 5; \<open>Put(6, 7)\<close> on it returns
  (nil, false) and \<open>Size\<close> becomes 6.
\<close>

theorem Put_of_stored_key_reports_new:
  "run (thn (Put 9 [49] [49]) (bnd (Put 9 [49] [50]) (\<lambda>r. bnd Size (\<lambda>n. ret (r, n)))))
     (NewBPlusTree [])
   = Inr (([], False), 2)
   \<and> run (thn (Puts 9 [[2], [4], [6], [8], [10], [12], [14]])
          (thn (Delete 9 [4]) (thn (Put 9 [11] [11]) (thn (Delete 9 []) (thn (Delete 9 [6])
          (bnd (Get 9 [6]) (\<lambda>g.
           bnd Size (\<lambda>n0.
           bnd (Put 9 [6] [7]) (\<lambda>r.
           bnd Size (\<lambda>n1. ret (g, n0, r, n1)))))))))))
       (NewBPlusTree [5])
     = Inr (([6], True), 5, ([], False), 6)"
  by code_simp

lemma loopTree_facts:
  "getNode 2 loopTree = Inr (\<lparr>leaf = False, parent = None, keys = [[2], [4]], keyNums = 2,
                  pointers = [Some 4, Some 8, Some 12]\<rparr>, loopTree)"
  "convertToNode (Some 12) loopTree = Inr (3, loopTree)"
  "setNode 2 \<lparr>leaf = False, parent = None, keys = [[2], [4]], keyNums = 2,
                  pointers = [Some 4, Some 8, Some 12]\<rparr> loopTree = Inr ((), loopTree)"
  "findLeftmostKey 0 3 loopTree = Inl OutOfFuel"
  "findLeftmostKey (Suc k) 3 loopTree = Inr ([4], loopTree)"
  "root loopTree = Some 2"
  by (simp_all add: getNode_def convertToNode_def getCell_def setNode_def findLeftmostKey_def
        bnd_def ret_def panic_def lift_def idx_def loopTree_def)

lemma scan_at_1: "removeFromIndex_scan f0 fuel [4] 2 1 loopTree = Inl OutOfFuel"
proof (induction fuel)
  case 0
  show ?case by (simp add: panic_def)
next
  case (Suc fuel)
  show ?case
  proof (cases f0)
    case 0
    then show ?thesis
      by (simp add: bnd_def lift_def idx_def loopTree_facts)
  next
    case (Suc k')
    with Suc.IH show ?thesis
      by (simp add: bnd_def lift_def idx_def upd_def loopTree_facts)
  qed
qed

lemma scan_at_0: "removeFromIndex_scan f0 fuel [4] 2 0 loopTree = Inl OutOfFuel"
proof (cases fuel)
  case 0
  then show ?thesis by (simp add: panic_def)
next
  case (Suc f)
  with scan_at_1 [of f0 f] show ?thesis
    by (simp add: bnd_def lift_def idx_def loopTree_facts)
qed

lemma removeFromIndex_loops: "removeFromIndex fuel [4] loopTree = Inl OutOfFuel"
proof (cases fuel)
  case 0
  then show ?thesis
    by (simp add: removeFromIndex_def bnd_def gets_def deref_def ret_def panic_def loopTree_facts)
next
  case (Suc f)
  with scan_at_0 [of "Suc f" "Suc f"] show ?thesis
    by (simp add: removeFromIndex_def bnd_def gets_def deref_def ret_def loopTree_facts)
qed

lemma Delete_prefix:
  "findLeafByKey (Suc (Suc (Suc f))) [4] staleLeafTree = Inr (3, staleLeafTree)"
  "keyPosition 3 [4] staleLeafTree = Inr (0, staleLeafTree)"
  "getNode 3 staleLeafTree
   = Inr (\<lparr>leaf = True, parent = Some 5, keys = [[4], []], keyNums = 1,
            pointers = [Some 7, None, Some 16]\<rparr>, staleLeafTree)"
  "convertToValue (Some 7) staleLeafTree = Inr ([4], staleLeafTree)"
  "deleteAt 3 0 0 staleLeafTree = Inr ((), emptiedLeafTree)"
  "getNode 3 emptiedLeafTree
   = Inr (\<lparr>leaf = True, parent = Some 5, keys = [[], []], keyNums = 0,
            pointers = [None, None, Some 16]\<rparr>, emptiedLeafTree)"
  "minKeyNum emptiedLeafTree = 1"
  "root staleLeafTree = Some 6"
  "rebalancedFromLeafNode (Suc (Suc (Suc f))) 3 emptiedLeafTree = Inr ((), loopTree)"
  by code_simp+

lemma Delete_small_fuel:
  "Delete 0 [4] staleLeafTree = Inl OutOfFuel"
  "Delete (Suc 0) [4] staleLeafTree = Inl OutOfFuel"
  "Delete (Suc (Suc 0)) [4] staleLeafTree = Inl OutOfFuel"
  by code_simp+

lemma Delete_does_not_return: "Delete fuel [4] staleLeafTree = Inl OutOfFuel"
proof -
  consider "fuel = 0" | "fuel = Suc 0" | "fuel = Suc (Suc 0)" | f where "fuel = Suc (Suc (Suc f))"
    by (metis not0_implies_Suc)
  then show ?thesis
  proof cases
    case 4
    then show ?thesis
      by (simp add: Delete_def deleteAtLeafAndRebalance_def bnd_def gets_def ret_def lift_def
            idx_def Delete_prefix removeFromIndex_loops)
  qed (simp_all add: Delete_small_fuel)
qed

text \<open>
  C6: \<open>Delete\<close> of a stored key returns its value and true and decrements \<open>Size\<close>. On a
  new tree \<open>Put("11", "11")\<close> followed by \<open>Delete("11")\<close> returns (nil, false) and
  \<open>Size\<close> stays 1. And in \<open>staleLeafTree\<close>, reached by \<open>Put\<close> of 1..6 and \<open>Delete(3)\<close>
  with order 3, \<open>Get(4)\<close> finds the value 4, yet \<open>Delete(4)\<close> returns under no step
  bound.
\<close>

theorem Delete_of_stored_key_fails:
  "run (thn (Put 9 [49, 49] [49, 49])
          (bnd (Delete 9 [49, 49]) (\<lambda>r. bnd Size (\<lambda>n. ret (r, n)))))
     (NewBPlusTree [])
   = Inr (([], False), 1)
   \<and> exec (thn (Puts 9 [[1], [2], [3], [4], [5], [6]]) (Delete 9 [3])) (NewBPlusTree [3])
     = Inr (([3], True), staleLeafTree)
   \<and> Get 9 [4] staleLeafTree = Inr (([4], True), staleLeafTree)
   \<and> (\<forall>fuel. Delete fuel [4] staleLeafTree = Inl OutOfFuel)"
proof -
  have a: "run (thn (Put 9 [49, 49] [49, 49])
                 (bnd (Delete 9 [49, 49]) (\<lambda>r. bnd Size (\<lambda>n. ret (r, n)))))
             (NewBPlusTree [])
           = Inr (([], False), 1)"
    by code_simp
  have b: "Get 9 [4] staleLeafTree = Inr (([4], True), staleLeafTree)"
    by code_simp
  from a b staleLeafTree_reachable Delete_does_not_return show ?thesis
    by blast
qed

text \<open>
  C9: whenever \<open>HasNext\<close> is true, \<open>Next\<close> returns the entry at the cursor. With order 3,
  after \<open>Put("a", "1")\<close> and \<open>Put("b", "2")\<close>, the iterator after one \<open>Next\<close> has
  \<open>HasNext\<close> true, and its \<open>Next\<close> panics in \<open>convertToNode\<close> on the leaf's last pointer.
\<close>

theorem Next_panics_while_HasNext:
  "run (thn (Put 9 [97] [49]) (thn (Put 9 [98] [50])
          (bnd Iterator_bpt (\<lambda>it. bnd (Next it) (\<lambda>(kv, it1). HasNext it1)))))
     (NewBPlusTree [3])
   = Inr True
   \<and> run (thn (Put 9 [97] [49]) (thn (Put 9 [98] [50])
          (bnd Iterator_bpt (\<lambda>it. bnd (Next it) (\<lambda>(kv, it1). Next it1)))))
       (NewBPlusTree [3])
     = Inl TypeAssertion"
  by code_simp

end
